theory Spec2Isabelle
  imports Complex_Main
begin

section \<open>Python primitives used by the patch applier\<close>

text \<open>
  Exceptions are values. Only the exception classes that the modelled code can raise
  are listed; the string carries the message the source formats into its result.
\<close>

datatype exn =
    IndexError string
  | OverflowError string
  | OSError string
  | RuntimeError string
  | KeyError string
  | ValueError string

text \<open>A string between single quotes, as Python prints a key or a path in a message.\<close>

definition quoted :: "string \<Rightarrow> string" where
  "quoted s = CHR 0x27 # s @ [CHR 0x27]"

text \<open>\<^verbatim>\<open>str(e)\<close> of an exception, as the source stores it under the key "error".\<close>

fun str_exn :: "exn \<Rightarrow> string" where
  "str_exn (IndexError m) = m"
| "str_exn (OverflowError m) = m"
| "str_exn (OSError m) = m"
| "str_exn (RuntimeError m) = m"
| "str_exn (KeyError k) = quoted k"
| "str_exn (ValueError m) = m"

text \<open>\<^verbatim>\<open>s.split('\n')\<close>: always at least one piece.\<close>

fun split_nl :: "string \<Rightarrow> string list" where
  "split_nl [] = [[]]"
| "split_nl (c # cs) =
     (if c = CHR 0x0A then [] # split_nl cs
      else (case split_nl cs of [] \<Rightarrow> [[c]] | l # ls \<Rightarrow> (c # l) # ls))"

text \<open>\<^verbatim>\<open>'\n'.join(xs)\<close>.\<close>

fun join_nl :: "string list \<Rightarrow> string" where
  "join_nl [] = []"
| "join_nl [x] = x"
| "join_nl (x # y # ys) = x @ CHR 0x0A # join_nl (y # ys)"

text \<open>\<^verbatim>\<open>s.startswith(p)\<close>.\<close>

definition startswith :: "string \<Rightarrow> string \<Rightarrow> bool" where
  "startswith s p = (take (length p) s = p)"

text \<open>
  An index that a list operation takes is converted to the signed machine word of the
  interpreter (\<^verbatim>\<open>Py_ssize_t\<close>, 64 bits here); outside its range the conversion fails.
\<close>

definition fits_ssize :: "int \<Rightarrow> bool" where
  "fits_ssize i = (- (2 ^ 63) \<le> i \<and> i \<le> 2 ^ 63 - 1)"

text \<open>
  \<^verbatim>\<open>del xs[i]\<close>: a negative index counts from the end; out of range raises
  \<^verbatim>\<open>IndexError\<close>, and so does an index that does not fit the machine word.
\<close>

definition py_del :: "'a list \<Rightarrow> int \<Rightarrow> exn + 'a list" where
  "py_del xs i =
     (if \<not> fits_ssize i then Inl (IndexError (''cannot fit '' @ quoted ''int'' @ '' into an index-sized integer''))
      else
       (let n = int (length xs); j = (if i < 0 then i + n else i)
        in if 0 \<le> j \<and> j < n then Inr (take (nat j) xs @ drop (Suc (nat j)) xs)
           else Inl (IndexError ''list assignment index out of range'')))"

text \<open>
  \<^verbatim>\<open>xs.insert(i, x)\<close>: a negative index counts from the end, and the position is
  clamped into \<open>0..len(xs)\<close>; it raises \<^verbatim>\<open>OverflowError\<close> for an index that does not
  fit the machine word, and nothing else.
\<close>

definition py_insert :: "'a list \<Rightarrow> int \<Rightarrow> 'a \<Rightarrow> exn + 'a list" where
  "py_insert xs i x =
     (if \<not> fits_ssize i then Inl (OverflowError ''Python int too large to convert to C ssize_t'')
      else
       (let n = int (length xs);
            j = (if i < 0 then (if i + n < 0 then 0 else i + n) else if i > n then n else i)
        in Inr (take (nat j) xs @ x # drop (nat j) xs)))"

section \<open>Parsing unified diffs: \<^verbatim>\<open>PatchApplier._parse_patch_hunks\<close>\<close>

datatype change = Add string | Remove string | Context string

record hunk =
  start_line :: int
  changes :: "change list"

definition digit :: "char \<Rightarrow> bool" where
  "digit c = (c \<in> set ''0123456789'')"

text \<open>
  \<^verbatim>\<open>int(ds)\<close> on a string of decimal digits. The limit that recent versions of Python
  put on the number of digits (4300 by default) is not modelled.
\<close>

definition digit_val :: "char \<Rightarrow> int" where
  "digit_val c = int (of_char c) - 48"

definition int_of_digits :: "string \<Rightarrow> int" where
  "int_of_digits ds = foldl (\<lambda>a c. 10 * a + digit_val c) 0 ds"

text \<open>\<open>strip_prefix p s\<close>: the rest of \<open>s\<close> after the literal \<open>p\<close>, if \<open>s\<close> starts with it.\<close>

definition strip_prefix :: "string \<Rightarrow> string \<Rightarrow> string option" where
  "strip_prefix p s = (if startswith s p then Some (drop (length p) s) else None)"

text \<open>
  The regular expression fragment \<^verbatim>\<open>(\d+),?\d*\<close>, followed in the pattern by a
  space: the captured digits and the rest of the input. What follows the fragment in the
  pattern is never a digit or a comma, so the greedy match (the longest run of digits, the
  comma if there is one, the longest run of digits again) is the only one that can be
  extended to a match of the whole pattern.
\<close>

definition range_part :: "string \<Rightarrow> (string \<times> string) option" where
  "range_part s =
     (let d = takeWhile digit s; r = dropWhile digit s
      in if d = [] then None
         else Some (d, dropWhile digit (case r of [] \<Rightarrow> r
                                        | c # r' \<Rightarrow> if c = CHR '','' then r' else r)))"

text \<open>
  \<^verbatim>\<open>re.match(r'@@ -(\d+),?\d* \+(\d+),?\d* @@', line)\<close>, which matches at the start of
  the line only; the result is \<^verbatim>\<open>int(group(2))\<close>, the start line on the new side.
\<close>

definition hunk_match :: "string \<Rightarrow> int option" where
  "hunk_match line =
     (case strip_prefix ''@@ -'' line of None \<Rightarrow> None
      | Some r1 \<Rightarrow>
     (case range_part r1 of None \<Rightarrow> None
      | Some (d1, r2) \<Rightarrow>
     (case strip_prefix '' +'' r2 of None \<Rightarrow> None
      | Some r3 \<Rightarrow>
     (case range_part r3 of None \<Rightarrow> None
      | Some (d2, r4) \<Rightarrow>
     (case strip_prefix '' @@'' r4 of None \<Rightarrow> None
      | Some r5 \<Rightarrow> Some (int_of_digits d2))))))"

text \<open>
  The if/elif chain on a line inside a hunk: \<open>None\<close> is the missing \<^verbatim>\<open>else\<close>, where
  the source appends nothing.
\<close>

definition classify :: "string \<Rightarrow> change option" where
  "classify line =
     (if startswith line ''+'' \<and> \<not> startswith line ''+++'' then Some (Add (drop 1 line))
      else if startswith line ''-'' \<and> \<not> startswith line ''---'' then Some (Remove (drop 1 line))
      else if startswith line '' '' then Some (Context (drop 1 line))
      else None)"

text \<open>
  The loop over the lines of the patch, with the loop state \<open>hunks\<close> and
  \<open>current_hunk\<close>; the first equation is the code after the loop.
\<close>

definition flush :: "hunk list \<Rightarrow> hunk option \<Rightarrow> hunk list" where
  "flush hunks cur = (case cur of None \<Rightarrow> hunks | Some h \<Rightarrow> hunks @ [h])"

fun parse_loop :: "string list \<Rightarrow> hunk list \<Rightarrow> hunk option \<Rightarrow> hunk list" where
  "parse_loop [] hunks cur = flush hunks cur"
| "parse_loop (line # rest) hunks cur =
     (case hunk_match line of
        Some n \<Rightarrow> parse_loop rest (flush hunks cur) (Some \<lparr>start_line = n, changes = []\<rparr>)
      | None \<Rightarrow>
         (case cur of
            None \<Rightarrow> parse_loop rest hunks None
          | Some h \<Rightarrow>
             parse_loop rest hunks
               (Some (case classify line of
                        None \<Rightarrow> h
                      | Some c \<Rightarrow> h\<lparr>changes := changes h @ [c]\<rparr>))))"

definition parse_patch_hunks :: "string \<Rightarrow> hunk list" where
  "parse_patch_hunks patch = parse_loop (split_nl patch) [] None"

section \<open>Applying hunks: \<^verbatim>\<open>PatchApplier._apply_patch_to_string\<close>\<close>

text \<open>
  The inner loop over the changes of one hunk. The state is \<open>(result_lines, start_line,
  offset)\<close>. The text of a remove or context change is not compared with the content.
\<close>

fun apply_changes :: "change list \<Rightarrow> string list \<times> int \<times> int \<Rightarrow> exn + string list \<times> int \<times> int" where
  "apply_changes [] st = Inr st"
| "apply_changes (Remove t # cs) (ls, start, off) =
     (case py_del ls start of
        Inl e \<Rightarrow> Inl e
      | Inr ls' \<Rightarrow> apply_changes cs (ls', start, off - 1))"
| "apply_changes (Add t # cs) (ls, start, off) =
     (case py_insert ls start t of
        Inl e \<Rightarrow> Inl e
      | Inr ls' \<Rightarrow> apply_changes cs (ls', start + 1, off + 1))"
| "apply_changes (Context t # cs) (ls, start, off) =
     apply_changes cs (ls, start + 1, off)"

text \<open>The outer loop over the hunks, with the state \<open>(result_lines, offset)\<close>.\<close>

fun apply_hunks :: "hunk list \<Rightarrow> string list \<times> int \<Rightarrow> exn + string list" where
  "apply_hunks [] (ls, off) = Inr ls"
| "apply_hunks (h # hs) (ls, off) =
     (case apply_changes (changes h) (ls, start_line h - 1 + off, off) of
        Inl e \<Rightarrow> Inl e
      | Inr (ls', start', off') \<Rightarrow> apply_hunks hs (ls', off'))"

definition apply_patch_to_string :: "string \<Rightarrow> string \<Rightarrow> exn + string" where
  "apply_patch_to_string original patch =
     (case apply_hunks (parse_patch_hunks patch) (split_nl original, 0) of
        Inl e \<Rightarrow> Inl e
      | Inr ls \<Rightarrow> Inr (join_nl ls))"

section \<open>The file system and the backup store of \<^verbatim>\<open>PatchApplier\<close>\<close>

text \<open>
  A file holds what was last written to it: text, or the JSON document that
  \<^verbatim>\<open>_create_backup\<close> dumps beside a backup (original file, timestamp, backup path).
  The disk is a map from paths to files; directories are not modelled.
\<close>

datatype fdata = Text string | Json string string string

text \<open>
  Input and output can fail for reasons the map does not show (permissions, a full
  disk). Such faults are a parameter: \<open>io op\<close> holds when the operation \<open>op\<close> raises
  \<^verbatim>\<open>OSError\<close>. The message of such an error stands for whatever the system reports.
\<close>

datatype io_op = Read string | Write string | Copy string string

text \<open>
  What the source logs and the claims speak of: the steps of the experiment logger
  (\<^verbatim>\<open>log_step(run_id, name, {"attempt": n, ...})\<close>) and the messages of
  \<^verbatim>\<open>_create_backup\<close>, \<^verbatim>\<open>apply\<close> and \<^verbatim>\<open>_restore_backup\<close>.
\<close>

datatype event =
    Step string int
  | BackupCreated string
  | PatchApplied string
  | Restored string

record world =
  files :: "string \<rightharpoonup> fdata"
  current_backup :: "string option"
  events :: "event list"

definition log_event :: "event \<Rightarrow> world \<Rightarrow> world" where
  "log_event e w = w\<lparr>events := events w @ [e]\<rparr>"

text \<open>
  \<^verbatim>\<open>json.dump\<close> of the metadata dictionary, as a text file reads it back. Characters
  are code points below 256; with \<^verbatim>\<open>ensure_ascii\<close> everything outside the printable
  ASCII range is escaped.
\<close>

definition hex_digit :: "nat \<Rightarrow> char" where
  "hex_digit n = ''0123456789abcdef'' ! (n mod 16)"

definition json_escape :: "char \<Rightarrow> string" where
  "json_escape c =
     (if c = CHR 0x22 then [CHR 0x5C, CHR 0x22]
      else if c = CHR 0x5C then [CHR 0x5C, CHR 0x5C]
      else if c = CHR 0x0A then [CHR 0x5C, CHR ''n'']
      else if c = CHR 0x0D then [CHR 0x5C, CHR ''r'']
      else if c = CHR 0x09 then [CHR 0x5C, CHR ''t'']
      else if c = CHR 0x08 then [CHR 0x5C, CHR ''b'']
      else if c = CHR 0x0C then [CHR 0x5C, CHR ''f'']
      else if (of_char c :: nat) < 32 \<or> (of_char c :: nat) > 126
        then [CHR 0x5C, CHR ''u'', CHR ''0'', CHR ''0'',
              hex_digit (of_char c div 16), hex_digit (of_char c)]
      else [c])"

definition json_string :: "string \<Rightarrow> string" where
  "json_string s = CHR 0x22 # concat (map json_escape s) @ [CHR 0x22]"

definition json_dump :: "string \<Rightarrow> string \<Rightarrow> string \<Rightarrow> string" where
  "json_dump orig ts bpath =
     ''{'' @ json_string ''original_file'' @ '': '' @ json_string orig @ '', ''
       @ json_string ''timestamp'' @ '': '' @ json_string ts @ '', ''
       @ json_string ''backup_path'' @ '': '' @ json_string bpath @ ''}''"

text \<open>
  Reading in text mode translates the line ends \<^verbatim>\<open>\r\n\<close> and \<^verbatim>\<open>\r\<close> to the newline.
\<close>

fun universal_newlines :: "string \<Rightarrow> string" where
  "universal_newlines [] = []"
| "universal_newlines [c] = (if c = CHR 0x0D then [CHR 0x0A] else [c])"
| "universal_newlines (c # d # ds) =
     (if c = CHR 0x0D
      then CHR 0x0A # (if d = CHR 0x0A then universal_newlines ds else universal_newlines (d # ds))
      else c # universal_newlines (d # ds))"

text \<open>The text of a file as a read in text mode returns it.\<close>

fun file_text :: "fdata \<Rightarrow> string" where
  "file_text (Text s) = universal_newlines s"
| "file_text (Json orig ts bpath) = json_dump orig ts bpath"

text \<open>\<^verbatim>\<open>open(path, 'r').read()\<close>.\<close>

definition read_file :: "(io_op \<Rightarrow> bool) \<Rightarrow> string \<Rightarrow> world \<Rightarrow> exn + string" where
  "read_file io path w =
     (case files w path of
        None \<Rightarrow> Inl (OSError (''[Errno 2] No such file or directory: '' @ quoted path))
      | Some d \<Rightarrow> if io (Read path) then Inl (OSError (''Cannot read: '' @ path))
                  else Inr (file_text d))"

text \<open>\<^verbatim>\<open>open(path, 'w').write(content)\<close>, on a system whose line end is the newline.\<close>

definition write_file :: "(io_op \<Rightarrow> bool) \<Rightarrow> string \<Rightarrow> fdata \<Rightarrow> world \<Rightarrow> exn + world" where
  "write_file io path d w =
     (if io (Write path) then Inl (OSError (''Cannot write: '' @ path))
      else Inr (w\<lparr>files := (files w)(path \<mapsto> d)\<rparr>))"

text \<open>\<^verbatim>\<open>shutil.copy2(src, dst)\<close>; copying a file onto itself raises \<^verbatim>\<open>SameFileError\<close>.\<close>

definition copy2 :: "(io_op \<Rightarrow> bool) \<Rightarrow> string \<Rightarrow> string \<Rightarrow> world \<Rightarrow> exn + world" where
  "copy2 io src dst w =
     (case files w src of
        None \<Rightarrow> Inl (OSError (''[Errno 2] No such file or directory: '' @ quoted src))
      | Some d \<Rightarrow>
         if src = dst then Inl (OSError (quoted src @ '' and '' @ quoted dst @ '' are the same file''))
         else if io (Copy src dst) then Inl (OSError (''Cannot copy: '' @ src))
         else Inr (w\<lparr>files := (files w)(dst \<mapsto> d)\<rparr>))"

text \<open>\<^verbatim>\<open>os.path.basename\<close> and \<^verbatim>\<open>os.path.join\<close> on POSIX paths.\<close>

definition basename :: "string \<Rightarrow> string" where
  "basename p = rev (takeWhile (\<lambda>c. c \<noteq> CHR ''/'') (rev p))"

definition path_join :: "string \<Rightarrow> string \<Rightarrow> string" where
  "path_join a b =
     (if startswith b ''/'' then b
      else if a = [] \<or> last a = CHR ''/'' then a @ b
      else a @ ''/'' @ b)"

text \<open>
  \<^verbatim>\<open>self.backup_dir\<close>: \<^verbatim>\<open>utils/config.py\<close> sets \<^verbatim>\<open>data_dir\<close> to \<^verbatim>\<open>'data'\<close>, which is
  also the default of the constructor.
\<close>

definition backup_dir :: string where
  "backup_dir = path_join ''data'' ''patches''"

definition backup_path_of :: "string \<Rightarrow> string \<Rightarrow> string" where
  "backup_path_of file_path ts = path_join backup_dir (basename file_path @ ''_'' @ ts @ ''.backup'')"

definition meta_path_of :: "string \<Rightarrow> string" where
  "meta_path_of bpath = bpath @ ''.meta''"

text \<open>
  \<^verbatim>\<open>PatchApplier._create_backup\<close>. \<open>ts\<close> is the timestamp that
  \<^verbatim>\<open>datetime.now().strftime('%Y%m%d_%H%M%S')\<close> returns at the call. There is no check
  for a backup that exists already. The world is returned in both cases: when writing the
  metadata fails, the copy has been made.
\<close>

definition create_backup ::
  "(io_op \<Rightarrow> bool) \<Rightarrow> string \<Rightarrow> string \<Rightarrow> world \<Rightarrow> (exn + string) \<times> world" where
  "create_backup io ts file_path w =
     (let bpath = backup_path_of file_path ts in
      case copy2 io file_path bpath w of
        Inl e \<Rightarrow> (Inl e, w)
      | Inr w1 \<Rightarrow>
         (case write_file io (meta_path_of bpath) (Json file_path ts bpath) w1 of
            Inl e \<Rightarrow> (Inl e, w1)
          | Inr w2 \<Rightarrow> (Inr bpath, log_event (BackupCreated bpath) w2)))"

text \<open>\<^verbatim>\<open>PatchApplier._restore_backup\<close>.\<close>

definition restore_backup ::
  "(io_op \<Rightarrow> bool) \<Rightarrow> string \<Rightarrow> string \<Rightarrow> world \<Rightarrow> exn + world" where
  "restore_backup io bpath target w =
     (case copy2 io bpath target w of
        Inl e \<Rightarrow> Inl e
      | Inr w1 \<Rightarrow> Inr (log_event (Restored target) w1))"

text \<open>
  \<^verbatim>\<open>PatchApplier._get_backup_info\<close>, of which the callers use the key
  \<^verbatim>\<open>original_file\<close>. A text file in the place of the metadata is not parsed: the
  model raises there, as \<^verbatim>\<open>json.load\<close> does on text that is not JSON.
\<close>

definition get_backup_info :: "(io_op \<Rightarrow> bool) \<Rightarrow> string \<Rightarrow> world \<Rightarrow> exn + string" where
  "get_backup_info io bpath w =
     (case files w (meta_path_of bpath) of
        None \<Rightarrow> Inl (OSError (''[Errno 2] No such file or directory: '' @ quoted (meta_path_of bpath)))
      | Some d \<Rightarrow>
         if io (Read (meta_path_of bpath)) then Inl (OSError (''Cannot read: '' @ meta_path_of bpath))
         else (case d of
                 Text s \<Rightarrow> Inl (ValueError ''Expecting value: line 1 column 1 (char 0)'')
               | Json orig ts bp \<Rightarrow> Inr orig))"

text \<open>The dictionary that \<^verbatim>\<open>dry_apply\<close> returns.\<close>

record dry_result =
  dry_success :: bool
  dry_error :: "string option"
  dry_new_content :: "string option"

text \<open>
  \<^verbatim>\<open>PatchApplier.dry_apply\<close>. \<open>ast_parse\<close> is the syntax check of the language
  (\<^verbatim>\<open>ast.parse\<close>): \<open>None\<close> when the text parses, the message of the syntax error
  otherwise. Nothing is written: the function returns no world.
\<close>

definition dry_apply ::
  "(io_op \<Rightarrow> bool) \<Rightarrow> (string \<Rightarrow> string option) \<Rightarrow> string \<Rightarrow> string \<Rightarrow> world \<Rightarrow> dry_result" where
  "dry_apply io ast_parse patch target_file w =
     (case read_file io target_file w of
        Inl e \<Rightarrow> \<lparr>dry_success = False, dry_error = Some (str_exn e), dry_new_content = None\<rparr>
      | Inr original_content \<Rightarrow>
         (case apply_patch_to_string original_content patch of
            Inl e \<Rightarrow> \<lparr>dry_success = False, dry_error = Some (str_exn e), dry_new_content = None\<rparr>
          | Inr new_content \<Rightarrow>
             (case ast_parse new_content of
                None \<Rightarrow> \<lparr>dry_success = True, dry_error = None,
                          dry_new_content = Some new_content\<rparr>
              | Some msg \<Rightarrow> \<lparr>dry_success = False, dry_error = Some (''Syntax error: '' @ msg),
                              dry_new_content = Some new_content\<rparr>)))"

text \<open>
  \<^verbatim>\<open>PatchApplier.apply\<close>. The backup is made first, outside the \<^verbatim>\<open>try\<close>; an error
  after it restores the backup and raises \<^verbatim>\<open>RuntimeError\<close> (or the error of the
  restore, if that fails too). On success the result is the backup path.
\<close>

definition apply_patch ::
  "(io_op \<Rightarrow> bool) \<Rightarrow> string \<Rightarrow> string \<Rightarrow> string \<Rightarrow> world \<Rightarrow> (exn + string) \<times> world" where
  "apply_patch io ts patch target_file w =
     (case create_backup io ts target_file w of
        (Inl e, w1) \<Rightarrow> (Inl e, w1)
      | (Inr bpath, w1) \<Rightarrow>
         (case (case read_file io target_file w1 of
                  Inl e \<Rightarrow> Inl e
                | Inr original_content \<Rightarrow>
                   (case apply_patch_to_string original_content patch of
                      Inl e \<Rightarrow> Inl e
                    | Inr new_content \<Rightarrow> write_file io target_file (Text new_content) w1)) of
            Inr w2 \<Rightarrow>
              (Inr bpath, (log_event (PatchApplied target_file) w2)\<lparr>current_backup := Some bpath\<rparr>)
          | Inl e \<Rightarrow>
              (case restore_backup io bpath target_file w1 of
                 Inl e' \<Rightarrow> (Inl e', w1)
               | Inr w3 \<Rightarrow> (Inl (RuntimeError (''Failed to apply patch: '' @ str_exn e)), w3))))"

text \<open>The dictionary that \<^verbatim>\<open>rollback\<close> returns.\<close>

record rollback_result =
  rb_success :: bool
  rb_message :: "string option"
  rb_error :: "string option"

text \<open>\<^verbatim>\<open>PatchApplier.rollback\<close>: it catches every exception and reports it in its result.\<close>

definition rollback :: "(io_op \<Rightarrow> bool) \<Rightarrow> world \<Rightarrow> rollback_result \<times> world" where
  "rollback io w =
     (case current_backup w of
        None \<Rightarrow> (\<lparr>rb_success = False, rb_message = Some ''No backup available'',
                   rb_error = None\<rparr>, w)
      | Some bpath \<Rightarrow>
         (case get_backup_info io bpath w of
            Inl e \<Rightarrow> (\<lparr>rb_success = False, rb_message = None, rb_error = Some (str_exn e)\<rparr>, w)
          | Inr target_file \<Rightarrow>
             (case restore_backup io bpath target_file w of
                Inl e \<Rightarrow> (\<lparr>rb_success = False, rb_message = None,
                           rb_error = Some (str_exn e)\<rparr>, w)
              | Inr w1 \<Rightarrow> (\<lparr>rb_success = True, rb_message = Some ''Rollback successful'',
                            rb_error = None\<rparr>, w1\<lparr>current_backup := None\<rparr>))))"

text \<open>
  \<^verbatim>\<open>PatchApplier.commit\<close> runs git, which is outside this model: \<open>git\<close> is the
  outcome, the commit hash or the error text. A successful commit clears the backup.
\<close>

record commit_result =
  commit_success :: bool
  commit_hash :: "string option"
  commit_error :: "string option"

definition commit :: "(string + string) \<Rightarrow> world \<Rightarrow> commit_result \<times> world" where
  "commit git w =
     (case git of
        Inl err \<Rightarrow> (\<lparr>commit_success = False, commit_hash = None, commit_error = Some err\<rparr>, w)
      | Inr h \<Rightarrow> (\<lparr>commit_success = True, commit_hash = Some h, commit_error = None\<rparr>,
                  w\<lparr>current_backup := None\<rparr>))"

section \<open>The critic: \<^verbatim>\<open>CriticAgent\<close>\<close>

text \<open>
  Dictionaries with optional keys are records of options: \<open>None\<close> is a missing key,
  and each \<^verbatim>\<open>d.get(k, default)\<close> of the source is written out. Python's floats are
  modelled by reals.
\<close>

record test_results =
  tr_total :: "int option"
  tr_passed :: "int option"
  tr_failed :: "int option"

text \<open>The patch dictionary of the fixer: the text and \<^verbatim>\<open>metadata['lines_changed']\<close>.\<close>

record patch =
  patch_text :: string
  lines_changed :: "int option"

text \<open>The section \<^verbatim>\<open>healing\<close> of the configuration.\<close>

record config =
  max_attempts :: "int option"
  max_patch_lines :: "int option"
  auto_merge_threshold :: "real option"

datatype verdict = PASS | RETRY_V | ESCALATE_V

text \<open>
  The evaluation dictionary. The rationale text is left out: it is a formatted message
  that no decision reads.
\<close>

record evaluation =
  ev_verdict :: verdict
  ev_confidence :: real
  ev_issues_found :: "string list"
  ev_suggestions :: "string list"
  ev_security_concerns :: "string list"
  ev_test_coverage :: real
  should_auto_merge :: bool

text \<open>The JSON object that the language model returns for an evaluation.\<close>

record llm_eval =
  llm_verdict :: "string option"
  llm_confidence :: "real option"
  llm_issues_found :: "string list option"
  llm_suggestions :: "string list option"
  llm_security_concerns :: "string list option"
  llm_test_coverage :: "real option"

definition get_default :: "'a option \<Rightarrow> 'a \<Rightarrow> 'a" where
  "get_default v d = (case v of None \<Rightarrow> d | Some x \<Rightarrow> x)"

text \<open>\<^verbatim>\<open>passed / max(total, 1)\<close> with the defaults of the two \<^verbatim>\<open>get\<close> calls.\<close>

definition coverage_ratio :: "test_results \<Rightarrow> real" where
  "coverage_ratio tr =
     real_of_int (get_default (tr_passed tr) 0) / real_of_int (max (get_default (tr_total tr) 1) 1)"

text \<open>
  \<^verbatim>\<open>CriticAgent._quick_checks\<close>. The rationale of the first branch reads
  \<^verbatim>\<open>test_results['total']\<close> and that of the second \<^verbatim>\<open>metadata['lines_changed']\<close>;
  each raises \<^verbatim>\<open>KeyError\<close> when the key is missing (in the second branch that needs a
  negative limit, with which the default 0 of the test exceeds it).
\<close>

definition quick_checks :: "patch \<Rightarrow> test_results \<Rightarrow> config \<Rightarrow> exn + evaluation option" where
  "quick_checks p tr cfg =
     (if get_default (tr_failed tr) 0 > 0 then
        (if tr_total tr = None then Inl (KeyError ''total'')
         else Inr (Some \<lparr>ev_verdict = RETRY_V, ev_confidence = 9 / 10,
                          ev_issues_found = [''Test failures''],
                          ev_suggestions = [''Review test failures and adjust patch''],
                          ev_security_concerns = [],
                          ev_test_coverage = coverage_ratio tr,
                          should_auto_merge = False\<rparr>))
      else if get_default (lines_changed p) 0 > get_default (max_patch_lines cfg) 25 then
        (if lines_changed p = None then Inl (KeyError ''lines_changed'')
         else Inr (Some \<lparr>ev_verdict = ESCALATE_V, ev_confidence = 8 / 10,
                          ev_issues_found = [''Patch exceeds size limit''],
                          ev_suggestions = [''Break into smaller patches or review manually''],
                          ev_security_concerns = [],
                          ev_test_coverage = 0,
                          should_auto_merge = False\<rparr>))
      else if get_default (tr_total tr) 0 = 0 then
        Inr (Some \<lparr>ev_verdict = PASS, ev_confidence = 7 / 10,
                    ev_issues_found = [],
                    ev_suggestions = [''Add tests for better validation''],
                    ev_security_concerns = [],
                    ev_test_coverage = 0,
                    should_auto_merge = False\<rparr>)
      else Inr None)"

text \<open>\<^verbatim>\<open>CriticAgent._create_fallback_evaluation\<close>.\<close>

definition create_fallback_evaluation :: "patch \<Rightarrow> test_results \<Rightarrow> evaluation" where
  "create_fallback_evaluation p tr =
     (let v = (if get_default (tr_failed tr) 0 = 0 then PASS else RETRY_V) in
      \<lparr>ev_verdict = v, ev_confidence = 6 / 10,
       ev_issues_found = (if v = PASS then [] else [''LLM evaluation unavailable'']),
       ev_suggestions = (if v = PASS then [] else [''Review patch manually'']),
       ev_security_concerns = [],
       ev_test_coverage = coverage_ratio tr,
       should_auto_merge = False\<rparr>)"

text \<open>The verdict strings; any other string is replaced by \<^verbatim>\<open>'PASS'\<close>.\<close>

definition verdict_of :: "string \<Rightarrow> verdict" where
  "verdict_of s =
     (if s = ''RETRY'' then RETRY_V else if s = ''ESCALATE'' then ESCALATE_V else PASS)"

text \<open>
  \<^verbatim>\<open>CriticAgent._validate_evaluation\<close>; \<open>None\<close> is a reply that is not a dictionary.
  With a positive total, \<^verbatim>\<open>test_results['passed']\<close> raises \<^verbatim>\<open>KeyError\<close> when the key is
  missing.
\<close>

definition validate_evaluation ::
  "llm_eval option \<Rightarrow> patch \<Rightarrow> test_results \<Rightarrow> config \<Rightarrow> exn + evaluation" where
  "validate_evaluation reply p tr cfg =
     (case reply of
        None \<Rightarrow> Inr (create_fallback_evaluation p tr)
      | Some ev \<Rightarrow>
         (let v = verdict_of (get_default (llm_verdict ev) ''PASS'');
              conf = get_default (llm_confidence ev) (1 / 2);
              sec = get_default (llm_security_concerns ev) []
          in case (if get_default (tr_total tr) 0 > 0
                   then (case tr_passed tr of
                           None \<Rightarrow> Inl (KeyError ''passed'')
                         | Some passed \<Rightarrow>
                             Inr (real_of_int passed / real_of_int (get_default (tr_total tr) 0)))
                   else Inr (get_default (llm_test_coverage ev) 0)) of
               Inl e \<Rightarrow> Inl e
             | Inr cov \<Rightarrow>
                 Inr \<lparr>ev_verdict = v, ev_confidence = conf,
                      ev_issues_found = get_default (llm_issues_found ev) [],
                      ev_suggestions = get_default (llm_suggestions ev) [],
                      ev_security_concerns = sec,
                      ev_test_coverage = cov,
                      should_auto_merge =
                        (v = PASS \<and> conf \<ge> get_default (auto_merge_threshold cfg) (9 / 10)
                         \<and> cov > 8 / 10 \<and> length sec = 0
                         \<and> get_default (lines_changed p) 999 \<le> 10)\<rparr>))"

text \<open>
  \<^verbatim>\<open>CriticAgent.evaluate_patch\<close>. \<open>reply\<close> is the outcome of
  \<^verbatim>\<open>client.generate_json\<close>; an exception there, which includes a reply whose values have
  the wrong types for the comparisons of \<^verbatim>\<open>_validate_evaluation\<close>, ends in the
  fallback evaluation. An exception of the quick checks is not caught. Building the
  prompt, between the two, formats the bug report, which came from JSON, and is taken not
  to raise.
\<close>

definition evaluate_patch ::
  "(exn + llm_eval option) \<Rightarrow> patch \<Rightarrow> test_results \<Rightarrow> config \<Rightarrow> exn + evaluation" where
  "evaluate_patch reply p tr cfg =
     (case quick_checks p tr cfg of
        Inl e \<Rightarrow> Inl e
      | Inr (Some quick_verdict) \<Rightarrow> Inr quick_verdict
      | Inr None \<Rightarrow>
         (case reply of
            Inl e \<Rightarrow> Inr (create_fallback_evaluation p tr)
          | Inr r \<Rightarrow>
             (case validate_evaluation r p tr cfg of
                Inl e \<Rightarrow> Inr (create_fallback_evaluation p tr)
              | Inr ev \<Rightarrow> Inr ev)))"

section \<open>One repair attempt: \<^verbatim>\<open>ManagerAgent._repair_iteration\<close>\<close>

text \<open>The plan of the planner, with the keys that the manager reads.\<close>

record plan =
  target_file :: "string option"
  strategy :: "string option"
  issue_description :: "string option"

datatype status = SUCCESS | RETRY | ESCALATE | ERROR

text \<open>
  The result dictionary of an attempt, which is also the attempt record that the run
  keeps. \<open>feedback_issue\<close> is \<^verbatim>\<open>feedback['issue']\<close>; \<open>failure_reason\<close> is added by
  the loop of \<^verbatim>\<open>heal\<close>.
\<close>

record iter_result =
  status :: status
  attempt :: int
  phase :: "string option"
  error :: "string option"
  feedback_issue :: "string option"
  result_patch :: "patch option"
  result_evaluation :: "evaluation option"
  commit_res :: "commit_result option"
  auto_merged :: "bool option"
  requires_approval :: "bool option"
  failure_reason :: "string option"

text \<open>
  The collaborators of one attempt, which are outside the modelled core: the planner, the
  fixer, the syntax check, the tester (which reads the disk), the language model of the
  critic, git, the clock, and the faults of the file system.
\<close>

record env =
  make_plan :: "iter_result list \<Rightarrow> exn + plan"
  generate_patch :: "string \<Rightarrow> string \<Rightarrow> plan \<Rightarrow> exn + patch"
  ast_parse :: "string \<Rightarrow> string option"
  run_tests :: "patch \<Rightarrow> plan \<Rightarrow> (string \<rightharpoonup> fdata) \<Rightarrow> exn + test_results"
  generate_json :: "patch \<Rightarrow> test_results \<Rightarrow> plan \<Rightarrow> exn + llm_eval option"
  git :: "string + string"
  now :: string
  io :: "io_op \<Rightarrow> bool"

text \<open>\<^verbatim>\<open>type(e).__name__\<close>.\<close>

fun exn_name :: "exn \<Rightarrow> string" where
  "exn_name (IndexError m) = ''IndexError''"
| "exn_name (OverflowError m) = ''OverflowError''"
| "exn_name (OSError m) = ''OSError''"
| "exn_name (RuntimeError m) = ''RuntimeError''"
| "exn_name (KeyError k) = ''KeyError''"
| "exn_name (ValueError m) = ''ValueError''"

text \<open>The dictionaries with status \<^verbatim>\<open>RETRY\<close> that name a phase.\<close>

definition retry_result :: "int \<Rightarrow> string \<Rightarrow> string \<Rightarrow> string \<Rightarrow> iter_result" where
  "retry_result n ph err issue =
     \<lparr>status = RETRY, attempt = n, phase = Some ph, error = Some err,
      feedback_issue = Some issue, result_patch = None, result_evaluation = None,
      commit_res = None, auto_merged = None, requires_approval = None,
      failure_reason = None\<rparr>"

text \<open>
  The handler \<^verbatim>\<open>except Exception as e\<close> of the attempt: it rolls back, drops the
  result of the rollback, and returns a retry with the phase \<^verbatim>\<open>unknown\<close>.
\<close>

definition on_exception :: "env \<Rightarrow> int \<Rightarrow> exn \<Rightarrow> world \<Rightarrow> (exn + iter_result) \<times> world" where
  "on_exception en n e w =
     (case rollback (io en) w of
        (rb, w1) \<Rightarrow>
          (Inr (retry_result n ''unknown'' (str_exn e) (''Iteration failed: '' @ exn_name e)), w1))"

text \<open>
  The part of the attempt inside the \<^verbatim>\<open>try\<close>: tests, evaluation, decision. The world
  \<open>w\<close> is the one after \<^verbatim>\<open>apply\<close>.
\<close>

definition test_and_decide ::
  "config \<Rightarrow> env \<Rightarrow> int \<Rightarrow> plan \<Rightarrow> patch \<Rightarrow> world \<Rightarrow> (exn + iter_result) \<times> world" where
  "test_and_decide cfg en n pl p w =
     (case run_tests en p pl (files w) of
        Inl e \<Rightarrow> on_exception en n e w
      | Inr tr \<Rightarrow>
         (let w1 = log_event (Step ''test'' n) w in
          case evaluate_patch (generate_json en p tr pl) p tr cfg of
            Inl e \<Rightarrow> on_exception en n e w1
          | Inr ev \<Rightarrow>
             (let w2 = log_event (Step ''evaluation'' n) w1 in
              if ev_verdict ev = PASS then
                (if should_auto_merge ev then
                   (case issue_description pl of
                      None \<Rightarrow> on_exception en n (KeyError ''issue_description'') w2
                    | Some d \<Rightarrow>
                       (case commit (git en) w2 of
                          (cr, w3) \<Rightarrow>
                            (Inr \<lparr>status = SUCCESS, attempt = n, phase = None, error = None,
                                  feedback_issue = None, result_patch = Some p,
                                  result_evaluation = Some ev, commit_res = Some cr,
                                  auto_merged = Some True, requires_approval = None,
                                  failure_reason = None\<rparr>, w3)))
                 else
                   (Inr \<lparr>status = SUCCESS, attempt = n, phase = None, error = None,
                         feedback_issue = None, result_patch = Some p,
                         result_evaluation = Some ev, commit_res = None,
                         auto_merged = Some False, requires_approval = Some True,
                         failure_reason = None\<rparr>, w2))
              else if ev_verdict ev = RETRY_V then
                (case rollback (io en) w2 of
                   (rb, w3) \<Rightarrow>
                     (Inr \<lparr>status = RETRY, attempt = n, phase = None, error = None,
                           feedback_issue = None, result_patch = None,
                           result_evaluation = Some ev, commit_res = None,
                           auto_merged = None, requires_approval = None,
                           failure_reason = None\<rparr>, w3))
              else
                (case rollback (io en) w2 of
                   (rb, w3) \<Rightarrow>
                     (Inr \<lparr>status = ESCALATE, attempt = n, phase = None, error = None,
                           feedback_issue = None, result_patch = None,
                           result_evaluation = Some ev, commit_res = None,
                           auto_merged = None, requires_approval = None,
                           failure_reason = None\<rparr>, w3)))))"

text \<open>
  \<^verbatim>\<open>ManagerAgent._repair_iteration\<close>. An exception of the planner, the missing key
  \<^verbatim>\<open>plan['strategy']\<close> of the log message before phase 3, and an exception of
  \<^verbatim>\<open>apply\<close> are outside every \<^verbatim>\<open>try\<close> and leave the function.
\<close>

definition repair_iteration ::
  "config \<Rightarrow> env \<Rightarrow> int \<Rightarrow> iter_result list \<Rightarrow> world \<Rightarrow> (exn + iter_result) \<times> world" where
  "repair_iteration cfg en n previous_attempts w =
     (case make_plan en previous_attempts of
        Inl e \<Rightarrow> (Inl e, w)
      | Inr pl \<Rightarrow>
         if target_file pl = None \<or> target_file pl = Some [] \<or> strategy pl = Some ''none'' then
           (Inr (retry_result n ''planning'' ''Could not create valid repair plan''
                   ''Planning failed''), w)
         else
           (let w1 = log_event (Step ''plan'' n) w; tf = the (target_file pl) in
            if strategy pl = None then (Inl (KeyError ''strategy''), w1)
            else if files w1 tf = None then
              (Inr (retry_result n ''file_validation'' (''File not found: '' @ tf)
                      ''Target file invalid''), w1)
            else
              (case read_file (io en) tf w1 of
                 Inl e \<Rightarrow>
                   (Inr (retry_result n ''file_reading'' (str_exn e)
                           ''Could not read target file''), w1)
               | Inr file_content \<Rightarrow>
                  (case generate_patch en tf file_content pl of
                     Inl e \<Rightarrow>
                       (Inr (retry_result n ''patch_generation'' (str_exn e)
                               ''Patch generation failed''), w1)
                   | Inr p \<Rightarrow>
                      (let w2 = log_event (Step ''patch'' n) w1;
                           apply_result = dry_apply (io en) (ast_parse en) (patch_text p) tf w2
                       in
                       if \<not> dry_success apply_result then
                         (Inr (retry_result n ''validation''
                                 (get_default (dry_error apply_result) [])
                                 ''Patch failed validation''), w2)
                       else
                         (case apply_patch (io en) (now en) (patch_text p) tf w2 of
                            (Inl e, w3) \<Rightarrow> (Inl e, w3)
                          | (Inr bpath, w3) \<Rightarrow> test_and_decide cfg en n pl p w3))))))"

section \<open>The healing run: \<^verbatim>\<open>ManagerAgent.heal\<close>\<close>

datatype run_status = NO_BUGS_FOUND | SUCCESS_RUN | ESCALATED | MAX_ATTEMPTS_REACHED | FAILED

record run_result =
  run_status :: run_status
  run_details :: "iter_result option"
  run_attempts :: "iter_result list"
  run_error :: "string option"

text \<open>The record that the loop appends when an attempt raises.\<close>

definition error_record :: "int \<Rightarrow> exn \<Rightarrow> iter_result" where
  "error_record n e =
     \<lparr>status = ERROR, attempt = n, phase = None, error = Some (str_exn e),
      feedback_issue = None, result_patch = None, result_evaluation = None,
      commit_res = None, auto_merged = None, requires_approval = None,
      failure_reason = None\<rparr>"

text \<open>
  \<^verbatim>\<open>result.get('error', result.get('feedback', {}).get('issue', 'Unknown'))\<close>.
\<close>

definition failure_reason_of :: "iter_result \<Rightarrow> string" where
  "failure_reason_of r = get_default (error r) (get_default (feedback_issue r) ''Unknown'')"

text \<open>
  The loop \<^verbatim>\<open>while attempt < self.max_attempts\<close>; \<open>k\<close> is the number of rounds left,
  \<open>max_attempts - attempt\<close>. \<open>envs n\<close> are the collaborators as they answer in
  attempt \<open>n\<close>. \<open>after r\<close> is the exception, if any, of the calls that follow a result
  inside the \<^verbatim>\<open>try\<close> of the loop (the learning system, the notifications, the
  completion of the run); the loop records it as an attempt with status \<^verbatim>\<open>ERROR\<close>
  and goes on.
\<close>

fun heal_loop ::
  "config \<Rightarrow> (int \<Rightarrow> env) \<Rightarrow> (iter_result \<Rightarrow> exn option) \<Rightarrow> nat \<Rightarrow> int \<Rightarrow>
   iter_result list \<Rightarrow> world \<Rightarrow> run_result \<times> world" where
  "heal_loop cfg envs after 0 a previous_attempts w =
     (\<lparr>run_status = MAX_ATTEMPTS_REACHED, run_details = None,
       run_attempts = previous_attempts, run_error = None\<rparr>, w)"
| "heal_loop cfg envs after (Suc k) a previous_attempts w =
     (let n = a + 1 in
      case repair_iteration cfg (envs n) n previous_attempts w of
        (Inl e, w1) \<Rightarrow> heal_loop cfg envs after k n (previous_attempts @ [error_record n e]) w1
      | (Inr r, w1) \<Rightarrow>
          if status r = SUCCESS then
            (case after r of
               Some e \<Rightarrow> heal_loop cfg envs after k n (previous_attempts @ [error_record n e]) w1
             | None \<Rightarrow> (\<lparr>run_status = SUCCESS_RUN, run_details = Some r,
                          run_attempts = previous_attempts, run_error = None\<rparr>, w1))
          else if status r = ESCALATE then
            (case after r of
               Some e \<Rightarrow> heal_loop cfg envs after k n (previous_attempts @ [error_record n e]) w1
             | None \<Rightarrow> (\<lparr>run_status = ESCALATED, run_details = Some r,
                          run_attempts = previous_attempts, run_error = None\<rparr>, w1))
          else
            (let r' = r\<lparr>failure_reason := Some (failure_reason_of r)\<rparr> in
             case after r' of
               Some e \<Rightarrow>
                 heal_loop cfg envs after k n (previous_attempts @ [r', error_record n e]) w1
             | None \<Rightarrow> heal_loop cfg envs after k n (previous_attempts @ [r']) w1))"

text \<open>
  What precedes the loop: the analysis, the repository context and the search for
  similar fixes either raise, or yield a bug report with or without bugs.
\<close>

datatype prelude = PreludeError exn | NoBugs | BugsFound

text \<open>
  \<^verbatim>\<open>ManagerAgent.heal\<close>; the default of \<^verbatim>\<open>max_attempts\<close> is 5. Starting the run and
  completing it after the loop are taken not to raise.
\<close>

definition heal ::
  "config \<Rightarrow> prelude \<Rightarrow> (int \<Rightarrow> env) \<Rightarrow> (iter_result \<Rightarrow> exn option) \<Rightarrow> world \<Rightarrow>
   run_result \<times> world" where
  "heal cfg pre envs after w =
     (case pre of
        PreludeError e \<Rightarrow>
          (\<lparr>run_status = FAILED, run_details = None, run_attempts = [],
            run_error = Some (str_exn e)\<rparr>, w)
      | NoBugs \<Rightarrow>
          (\<lparr>run_status = NO_BUGS_FOUND, run_details = None, run_attempts = [],
            run_error = None\<rparr>, w)
      | BugsFound \<Rightarrow>
          heal_loop cfg envs after (nat (get_default (max_attempts cfg) 5)) 0 [] w)"

section \<open>The approval scheduler: \<^verbatim>\<open>GitAutoHealer\<close>\<close>

text \<open>
  The entry of \<^verbatim>\<open>pending_approvals\<close> for a run; the healing result it carries is not
  read by any decision and is left out.
\<close>

record approval =
  ap_file :: string
  ap_risk :: string

text \<open>
  The calls that \<^verbatim>\<open>approve_and_push\<close> makes on its collaborators, in the order in
  which they are made: the rollback and the commit of the patch applier (the flag is
  \<^verbatim>\<open>auto\<close>), the push to the remote, and the success notification.
\<close>

datatype action = RollbackCall | CommitCall bool | PushCall | SuccessNotification bool

text \<open>
  The state of a \<^verbatim>\<open>GitAutoHealer\<close>. \<open>timer_cancelled\<close> holds the runs whose
  \<^verbatim>\<open>threading.Timer\<close> has been cancelled: a cancelled timer that has not fired yet never
  calls its function. \<open>has_repo\<close> is \<^verbatim>\<open>self.repo\<close> being set; \<open>commit_ok\<close> and
  \<open>push_ok\<close> are the outcomes of git, which is outside the model.
\<close>

record healer =
  pending_approvals :: "string \<rightharpoonup> approval"
  approval_timers :: "string set"
  timer_cancelled :: "string set"
  has_repo :: bool
  commit_ok :: bool
  push_ok :: bool
  actions :: "action list"

text \<open>What a call returns, or the exception that leaves it.\<close>

datatype outcome =
    RunNotFound
  | Rejected
  | CommittedAndPushed
  | PushFailed
  | CommitFailed
  | ReturnedNone
  | Caught exn
  | Raised exn
  | TimerRunNotFound
  | TimerCancelled

text \<open>
  \<^verbatim>\<open>GitAutoHealer.approve_and_push\<close>, run from its first to its last statement with
  nothing in between. Without a repository a successful commit falls out of the
  \<^verbatim>\<open>try\<close> and the function returns \<^verbatim>\<open>None\<close>, the run still pending.
\<close>

definition approve_and_push :: "string \<Rightarrow> bool \<Rightarrow> bool \<Rightarrow> healer \<Rightarrow> outcome \<times> healer" where
  "approve_and_push run_id approved auto h =
     (if pending_approvals h run_id = None then (RunNotFound, h)
      else
        (let h1 = (if run_id \<in> approval_timers h
                   then h\<lparr>timer_cancelled := insert run_id (timer_cancelled h),
                          approval_timers := approval_timers h - {run_id}\<rparr>
                   else h)
         in if \<not> approved then
              (Rejected, h1\<lparr>actions := actions h1 @ [RollbackCall],
                            pending_approvals := (pending_approvals h1)(run_id := None)\<rparr>)
            else
              (let h2 = h1\<lparr>actions := actions h1 @ [CommitCall auto]\<rparr> in
               if commit_ok h2 then
                 (if has_repo h2 then
                    (let h3 = h2\<lparr>actions := actions h2 @ [PushCall]\<rparr> in
                     if push_ok h3 then
                       (CommittedAndPushed,
                        h3\<lparr>actions := actions h3 @ [SuccessNotification auto],
                           pending_approvals := (pending_approvals h3)(run_id := None)\<rparr>)
                     else (PushFailed, h3))
                  else (ReturnedNone, h2))
               else (CommitFailed, h2))))"

text \<open>\<^verbatim>\<open>GitAutoHealer._auto_push_after_timeout\<close>, likewise.\<close>

definition auto_push_after_timeout :: "string \<Rightarrow> healer \<Rightarrow> outcome \<times> healer" where
  "auto_push_after_timeout run_id h =
     (if pending_approvals h run_id = None then (TimerRunNotFound, h)
      else approve_and_push run_id True True h)"

text \<open>
  The same two functions statement by statement, for the timer thread and the thread of a
  manual decision running together. A program point is named by the line of the source
  at which the thread stands; one step runs the statement there. The steps are no finer
  than the statements of the source (line 201 is the test and the read of the entry,
  line 222 is the test, the cancel and the delete of the timer, each in one step), so
  every interleaving of steps is an execution of the source.
\<close>

datatype pc =
    Waiting
  | L201
  | L215
  | L219
  | L222
  | L229
  | L230
  | L243
  | L253
  | L259
  | L266
  | Return outcome

record thread =
  pc :: pc
  approved :: bool
  auto :: bool

definition goto :: "pc \<Rightarrow> thread \<Rightarrow> thread" where
  "goto l t = t\<lparr>pc := l\<rparr>"

definition act :: "action \<Rightarrow> healer \<Rightarrow> healer" where
  "act a h = h\<lparr>actions := actions h @ [a]\<rparr>"

fun step :: "string \<Rightarrow> thread \<Rightarrow> healer \<Rightarrow> thread \<times> healer" where
  "step run_id t h =
     (case pc t of
        Waiting \<Rightarrow>
          (if run_id \<in> timer_cancelled h then (goto (Return TimerCancelled) t, h)
           else (goto L201 t, h))
      | L201 \<Rightarrow>
          (if pending_approvals h run_id = None then (goto (Return TimerRunNotFound) t, h)
           else (goto L215 (t\<lparr>approved := True, auto := True\<rparr>), h))
      | L215 \<Rightarrow>
          (if pending_approvals h run_id = None then (goto (Return RunNotFound) t, h)
           else (goto L219 t, h))
      | L219 \<Rightarrow>
          (if pending_approvals h run_id = None then (goto (Return (Raised (KeyError run_id))) t, h)
           else (goto L222 t, h))
      | L222 \<Rightarrow>
          (goto (if approved t then L243 else L229) t,
           if run_id \<in> approval_timers h
           then h\<lparr>timer_cancelled := insert run_id (timer_cancelled h),
                  approval_timers := approval_timers h - {run_id}\<rparr>
           else h)
      | L229 \<Rightarrow> (goto L230 t, act RollbackCall h)
      | L230 \<Rightarrow>
          (if pending_approvals h run_id = None then (goto (Return (Raised (KeyError run_id))) t, h)
           else (goto (Return Rejected) t,
                 h\<lparr>pending_approvals := (pending_approvals h)(run_id := None)\<rparr>))
      | L243 \<Rightarrow>
          (goto (if commit_ok h then (if has_repo h then L253 else Return ReturnedNone)
               else Return CommitFailed) t,
           act (CommitCall (auto t)) h)
      | L253 \<Rightarrow> (goto (if push_ok h then L259 else Return PushFailed) t, act PushCall h)
      | L259 \<Rightarrow> (goto L266 t, act (SuccessNotification (auto t)) h)
      | L266 \<Rightarrow>
          (if pending_approvals h run_id = None then (goto (Return (Caught (KeyError run_id))) t, h)
           else (goto (Return CommittedAndPushed) t,
                 h\<lparr>pending_approvals := (pending_approvals h)(run_id := None)\<rparr>))
      | Return r \<Rightarrow> (t, h))"

text \<open>
  A schedule is the list of the threads that take the next step, by their index in the
  list of threads.
\<close>

fun run_schedule :: "string \<Rightarrow> nat list \<Rightarrow> thread list \<times> healer \<Rightarrow> thread list \<times> healer" where
  "run_schedule run_id [] st = st"
| "run_schedule run_id (i # sched) (ts, h) =
     (if i < length ts
      then (case step run_id (ts ! i) h of
              (t', h') \<Rightarrow> run_schedule run_id sched (ts[i := t'], h'))
      else run_schedule run_id sched (ts, h))"

text \<open>The timer thread of a run, armed, and the thread of a manual decision.\<close>

definition timer_thread :: thread where
  "timer_thread = \<lparr>pc = Waiting, approved = True, auto = True\<rparr>"

definition manual_thread :: "bool \<Rightarrow> thread" where
  "manual_thread ok = \<lparr>pc = L215, approved = ok, auto = False\<rparr>"

text \<open>A low-risk fix waiting for its timer, as \<^verbatim>\<open>_handle_low_risk_push\<close> leaves it.\<close>

definition armed :: "string \<Rightarrow> string \<Rightarrow> healer" where
  "armed run_id file =
     \<lparr>pending_approvals = [run_id \<mapsto> \<lparr>ap_file = file, ap_risk = ''LOW''\<rparr>],
      approval_timers = {run_id}, timer_cancelled = {},
      has_repo = True, commit_ok = True, push_ok = True, actions = []\<rparr>"

section \<open>Measures of a patch\<close>












text \<open>A line: a text with no newline in it.\<close>

definition no_nl :: "string \<Rightarrow> bool" where
  "no_nl s = (CHR 0x0A \<notin> set s)"



section \<open>Sample inputs\<close>









text \<open>A patch of two changed lines and the configuration with its defaults.\<close>

definition sample_patch :: patch where
  "sample_patch = \<lparr>patch_text = ''@@ -1,1 +1,1 @@\<newline>-x = 1\<newline>+x = 2'', lines_changed = Some 2\<rparr>"

definition default_config :: config where
  "default_config = \<lparr>max_attempts = None, max_patch_lines = None, auto_merge_threshold = None\<rparr>"

text \<open>A confident reply of the language model, and test results with and without tests.\<close>

definition confident_reply :: llm_eval where
  "confident_reply =
     \<lparr>llm_verdict = Some ''PASS'', llm_confidence = Some (95 / 100), llm_issues_found = None,
      llm_suggestions = None, llm_security_concerns = Some [], llm_test_coverage = None\<rparr>"

definition four_passed :: test_results where
  "four_passed = \<lparr>tr_total = Some 4, tr_passed = Some 4, tr_failed = Some 0\<rparr>"

definition no_tests :: test_results where
  "no_tests = \<lparr>tr_total = Some 0, tr_passed = Some 0, tr_failed = Some 0\<rparr>"

section \<open>Conditions on the environment\<close>

text \<open>
  A timestamp of the format \<^verbatim>\<open>%Y%m%d_%H%M%S\<close> is made of digits and underscores.
\<close>

definition is_timestamp :: "string \<Rightarrow> bool" where
  "is_timestamp ts = list_all (\<lambda>c. digit c \<or> c = CHR ''_'') ts"

text \<open>A file system on which no operation fails for reasons outside the model.\<close>

definition no_faults :: "(io_op \<Rightarrow> bool) \<Rightarrow> bool" where
  "no_faults f = (\<forall>op. \<not> f op)"

section \<open>What a run of retries is expected to leave behind\<close>

text \<open>
  The events of an attempt on the file \<open>tf\<close> at the time \<open>ts\<close> that is applied,
  tested, evaluated and rolled back.
\<close>

definition attempt_events :: "string \<Rightarrow> string \<Rightarrow> int \<Rightarrow> event list" where
  "attempt_events tf ts n =
     [Step ''plan'' n, Step ''patch'' n, BackupCreated (backup_path_of tf ts), PatchApplied tf,
      Step ''test'' n, Step ''evaluation'' n, Restored tf]"

text \<open>The attempt record of a retry that the evaluation \<open>ev\<close> asked for.\<close>

definition retry_record :: "evaluation \<Rightarrow> int \<Rightarrow> iter_result" where
  "retry_record ev n =
     \<lparr>status = RETRY, attempt = n, phase = None, error = None, feedback_issue = None,
      result_patch = None, result_evaluation = Some ev, commit_res = None,
      auto_merged = None, requires_approval = None, failure_reason = Some ''Unknown''\<rparr>"

text \<open>The events and the records of \<open>k\<close> such attempts after attempt \<open>a\<close>.\<close>

fun expected_events :: "string \<Rightarrow> (int \<Rightarrow> string) \<Rightarrow> nat \<Rightarrow> int \<Rightarrow> event list" where
  "expected_events tf ts 0 a = []"
| "expected_events tf ts (Suc k) a =
     attempt_events tf (ts (a + 1)) (a + 1) @ expected_events tf ts k (a + 1)"

fun expected_attempts :: "evaluation \<Rightarrow> nat \<Rightarrow> int \<Rightarrow> iter_result list" where
  "expected_attempts ev 0 a = []"
| "expected_attempts ev (Suc k) a = retry_record ev (a + 1) # expected_attempts ev k (a + 1)"

section \<open>Stub collaborators\<close>

definition sample_plan :: plan where
  "sample_plan = \<lparr>target_file = Some ''app.py'', strategy = Some ''one_line_fix'',
                  issue_description = Some ''wrong constant''\<rparr>"

definition failing_tests :: test_results where
  "failing_tests = \<lparr>tr_total = Some 4, tr_passed = Some 3, tr_failed = Some 1\<rparr>"

text \<open>
  Stubs that always end in a retry: a fixed plan and patch, a syntax check that accepts,
  tests that report a failure, no language model, no git, a working disk.
\<close>

definition stub_env :: env where
  "stub_env =
     \<lparr>make_plan = (\<lambda>prev. Inr sample_plan),
      generate_patch = (\<lambda>path content pl. Inr sample_patch),
      ast_parse = (\<lambda>content. None),
      run_tests = (\<lambda>p pl fs. Inr failing_tests),
      generate_json = (\<lambda>p tr pl. Inl (RuntimeError ''no model'')),
      git = Inl ''not a git repository'',
      now = ''20240101_120000'',
      io = (\<lambda>op. False)\<rparr>"

definition sample_world :: world where
  "sample_world = \<lparr>files = [''app.py'' \<mapsto> Text ''x = 1''], current_backup = None, events = []\<rparr>"



text \<open>
  A patch whose metadata has no number of changed lines, and a configuration with a
  negative limit.
\<close>

definition unsized_patch :: patch where
  "unsized_patch = sample_patch\<lparr>lines_changed := None\<rparr>"

definition unsized_patch_env :: env where
  "unsized_patch_env = stub_env\<lparr>generate_patch := (\<lambda>path content pl. Inr unsized_patch),
                                 run_tests := (\<lambda>p pl fs. Inr four_passed)\<rparr>"

definition negative_limit :: config where
  "negative_limit = \<lparr>max_attempts = None, max_patch_lines = Some (- 1),
                     auto_merge_threshold = None\<rparr>"

text \<open>A syntax check that rejects, and a disk on which copying the backup back fails.\<close>

definition rejecting_env :: env where
  "rejecting_env = stub_env\<lparr>ast_parse := (\<lambda>content. Some ''invalid syntax at line 1'')\<rparr>"

definition restore_fault_env :: env where
  "restore_fault_env =
     stub_env\<lparr>io := (\<lambda>op. op = Copy (backup_path_of ''app.py'' ''20240101_120000'') ''app.py'')\<rparr>"

definition three_attempts :: config where
  "three_attempts = \<lparr>max_attempts = Some 3, max_patch_lines = None, auto_merge_threshold = None\<rparr>"

section \<open>Properties of the diff engine\<close>

subsection \<open>Splitting and joining lines, deleting and inserting\<close>


lemma split_nl_no_nl: "no_nl x \<Longrightarrow> split_nl (x @ CHR 0x0A # r) = x # split_nl r"
  by (induction x) (auto simp: no_nl_def)

lemma split_nl_single: "no_nl x \<Longrightarrow> split_nl x = [x]"
  by (induction x) (auto simp: no_nl_def)

lemma split_join: "ls \<noteq> [] \<Longrightarrow> list_all no_nl ls \<Longrightarrow> split_nl (join_nl ls) = ls"
  by (induction ls rule: join_nl.induct) (auto simp: split_nl_single split_nl_no_nl)
















subsection \<open>The lines of a patch\<close>


















lemma parse_loop_skip:
  "hunk_match l = None \<Longrightarrow> classify l = None \<Longrightarrow>
   parse_loop (xs @ l # ys) hs cur = parse_loop (xs @ ys) hs cur"
  by (induction xs arbitrary: hs cur) (auto split: option.splits)

lemma hunk_match_empty: "hunk_match [] = None"
  by (simp add: hunk_match_def strip_prefix_def startswith_def)

text \<open>A remove operation beyond the end of the content raises.\<close>

lemma remove_out_of_range:
  "apply_patch_to_string ''a'' ''@@ -5,1 +5,0 @@\<newline>-a'' =
     Inl (IndexError ''list assignment index out of range'')"
  by code_simp

subsection \<open>The claims about the diff engine\<close>

text \<open>
  Claim C6. Applying the patch \<^verbatim>\<open>@@ -2,1 +2,3 @@\<close> with the context line
  \<^verbatim>\<open>def f():\<close> and the two added lines \<^verbatim>\<open>x = 1\<close> and \<^verbatim>\<open>y = 2\<close> (indented by four
  spaces) to the content \<^verbatim>\<open>a / def f(): / b\<close> gives \<^verbatim>\<open>a / def f(): / x = 1 / y = 2 / b\<close>,
  each line ended by a newline.
\<close>

theorem apply_patch_scenario:
  "apply_patch_to_string ''a\<newline>def f():\<newline>b\<newline>''
     ''@@ -2,1 +2,3 @@\<newline> def f():\<newline>+    x = 1\<newline>+    y = 2\<newline>''
   = Inr ''a\<newline>def f():\<newline>    x = 1\<newline>    y = 2\<newline>b\<newline>''"
  by code_simp




text \<open>
  Claim C8, as the code has it. The parser has no error for a patch that is not well
  formed. A line that is neither a hunk header nor starts with a marker (which includes a
  header that the pattern does not match, and the file headers \<^verbatim>\<open>---\<close> and \<^verbatim>\<open>+++\<close>)
  is skipped: the patch parses to the same hunks as the patch without that line.
\<close>

theorem parse_skips_unrecognised:
  assumes "hunk_match l = None" and "classify l = None"
    and "list_all no_nl (xs @ l # ys)"
  shows "parse_patch_hunks (join_nl (xs @ l # ys)) = parse_patch_hunks (join_nl (xs @ ys))"
proof (cases "xs @ ys = []")
  case True
  with assms show ?thesis
    by (simp add: parse_patch_hunks_def split_nl_single hunk_match_empty)
next
  case False
  with assms show ?thesis
    by (simp add: parse_patch_hunks_def split_join parse_loop_skip)
qed

theorem parse_skips_unrecognised_witness:
  "hunk_match ''oops'' = None \<and> classify ''oops'' = None \<and>
   parse_patch_hunks (join_nl ([''@@ -1,1 +1,1 @@''] @ ''oops'' # [''+x''])) =
   parse_patch_hunks (join_nl ([''@@ -1,1 +1,1 @@''] @ [''+x'']))"
proof -
  have h: "hunk_match ''oops'' = None" by code_simp
  have c: "classify ''oops'' = None" by code_simp
  have n: "list_all no_nl ([''@@ -1,1 +1,1 @@''] @ ''oops'' # [''+x''])" by code_simp
  from h c parse_skips_unrecognised[OF h c n] show ?thesis by blast
qed

text \<open>
  The claim as the specification states it fails: a hunk body line with no marker and a
  header that cannot be parsed both give a list of hunks, and the patch applies.
\<close>

theorem malformed_patch_counterexample:
  "parse_patch_hunks ''@@ -1,1 +1,1 @@\<newline>oops\<newline>+x'' = [\<lparr>start_line = 1, changes = [Add ''x'']\<rparr>] \<and>
   apply_patch_to_string ''a'' ''@@ -1,1 +1,1 @@\<newline>oops\<newline>+x'' = Inr ''x\<newline>a'' \<and>
   parse_patch_hunks ''@@ -a,b +c,d @@\<newline>+x'' = [] \<and>
   apply_patch_to_string ''a'' ''@@ -a,b +c,d @@\<newline>+x'' = Inr ''a''"
  by code_simp

section \<open>Properties of the critic\<close>

lemma quick_checks_no_merge: "quick_checks p tr cfg = Inr (Some ev) \<Longrightarrow> \<not> should_auto_merge ev"
  by (auto simp: quick_checks_def split: if_splits)

lemma quick_checks_total: "quick_checks p tr cfg = Inr None \<Longrightarrow> get_default (tr_total tr) 0 \<noteq> 0"
  by (auto simp: quick_checks_def split: if_splits)

lemma fallback_no_merge: "\<not> should_auto_merge (create_fallback_evaluation p tr)"
  by (simp add: create_fallback_evaluation_def Let_def)

lemma validate_merge:
  "validate_evaluation r p tr cfg = Inr ev \<Longrightarrow> should_auto_merge ev \<Longrightarrow>
   ev_verdict ev = PASS \<and> ev_confidence ev \<ge> get_default (auto_merge_threshold cfg) (9 / 10)
   \<and> ev_test_coverage ev > 8 / 10 \<and> ev_security_concerns ev = []
   \<and> get_default (lines_changed p) 999 \<le> 10"
  by (auto simp: validate_evaluation_def Let_def fallback_no_merge split: option.splits if_splits sum.splits)

text \<open>
  Claim C10. Every evaluation that the critic produces for test results with a total of
  zero (or with no total) has \<open>should_auto_merge\<close> false; and an evaluation with
  \<open>should_auto_merge\<close> true has the verdict PASS, a confidence at or above the
  configured threshold (default 0.9), a test coverage above 0.8, no security concern,
  and a patch of at most 10 changed lines.
\<close>

theorem auto_merge_conditions:
  assumes "evaluate_patch reply p tr cfg = Inr ev"
  shows "(get_default (tr_total tr) 0 = 0 \<longrightarrow> \<not> should_auto_merge ev) \<and>
         (should_auto_merge ev \<longrightarrow>
            ev_verdict ev = PASS \<and> ev_confidence ev \<ge> get_default (auto_merge_threshold cfg) (9 / 10)
            \<and> ev_test_coverage ev > 8 / 10 \<and> ev_security_concerns ev = []
            \<and> get_default (lines_changed p) 999 \<le> 10)"
proof (cases "quick_checks p tr cfg")
  case (Inl e)
  with assms show ?thesis by (simp add: evaluate_patch_def)
next
  case (Inr q)
  show ?thesis
  proof (cases q)
    case (Some qv)
    with Inr assms have e: "ev = qv" by (simp add: evaluate_patch_def)
    from Inr Some have "quick_checks p tr cfg = Inr (Some qv)" by simp
    then have "\<not> should_auto_merge qv" by (rule quick_checks_no_merge)
    with e show ?thesis by simp
  next
    case None
    with Inr have t: "get_default (tr_total tr) 0 \<noteq> 0" by (simp add: quick_checks_total)
    show ?thesis
    proof (cases reply)
      case l: (Inl e)
      with assms Inr None have "ev = create_fallback_evaluation p tr"
        by (simp add: evaluate_patch_def)
      then show ?thesis by (simp add: fallback_no_merge)
    next
      case r: (Inr rep)
      show ?thesis
      proof (cases "validate_evaluation rep p tr cfg")
        case vl: (Inl e)
        with assms Inr None r have "ev = create_fallback_evaluation p tr"
          by (simp add: evaluate_patch_def)
        then show ?thesis by (simp add: fallback_no_merge)
      next
        case vr: (Inr ev')
        with assms Inr None r have "ev' = ev" by (simp add: evaluate_patch_def)
        with vr have "validate_evaluation rep p tr cfg = Inr ev" by simp
        from t validate_merge[OF this] show ?thesis by simp
      qed
    qed
  qed
qed

theorem auto_merge_conditions_witness:
  "evaluate_patch (Inr (Some confident_reply)) sample_patch four_passed default_config =
     Inr \<lparr>ev_verdict = PASS, ev_confidence = 95 / 100, ev_issues_found = [],
          ev_suggestions = [], ev_security_concerns = [], ev_test_coverage = 1,
          should_auto_merge = True\<rparr> \<and>
   get_default (lines_changed sample_patch) 999 \<le> 10 \<and>
   get_default (tr_total no_tests) 0 = 0 \<and>
   evaluate_patch (Inr (Some confident_reply)) sample_patch no_tests default_config =
     Inr \<lparr>ev_verdict = PASS, ev_confidence = 7 / 10, ev_issues_found = [],
          ev_suggestions = [''Add tests for better validation''], ev_security_concerns = [],
          ev_test_coverage = 0, should_auto_merge = False\<rparr>"
proof -
  have a: "evaluate_patch (Inr (Some confident_reply)) sample_patch four_passed default_config =
     Inr \<lparr>ev_verdict = PASS, ev_confidence = 95 / 100, ev_issues_found = [],
          ev_suggestions = [], ev_security_concerns = [], ev_test_coverage = 1,
          should_auto_merge = True\<rparr>"
    by (simp add: evaluate_patch_def quick_checks_def validate_evaluation_def get_default_def
        verdict_of_def sample_patch_def default_config_def confident_reply_def four_passed_def)
  have b: "evaluate_patch (Inr (Some confident_reply)) sample_patch no_tests default_config =
     Inr \<lparr>ev_verdict = PASS, ev_confidence = 7 / 10, ev_issues_found = [],
          ev_suggestions = [''Add tests for better validation''], ev_security_concerns = [],
          ev_test_coverage = 0, should_auto_merge = False\<rparr>"
    by (simp add: evaluate_patch_def quick_checks_def get_default_def
        sample_patch_def default_config_def no_tests_def)
  from auto_merge_conditions[OF a] auto_merge_conditions[OF b] a b show ?thesis
    by (simp add: get_default_def no_tests_def)
qed

section \<open>Properties of the backup store\<close>

subsection \<open>Backup paths\<close>

lemma backup_dir_eq: "backup_dir = ''data/patches''"
  by (simp add: backup_dir_def path_join_def startswith_def)

lemma timestamp_no_slash: "is_timestamp ts \<Longrightarrow> CHR ''/'' \<notin> set ts"
  by (auto simp: is_timestamp_def list_all_iff digit_def)

lemma basename_no_slash: "CHR ''/'' \<notin> set (basename p)"
proof -
  have "set (takeWhile (\<lambda>c. c \<noteq> CHR ''/'') (rev p)) \<subseteq> {c. c \<noteq> CHR ''/''}"
    by (auto dest: set_takeWhileD)
  then show ?thesis by (auto simp: basename_def)
qed

lemma basename_append: "CHR ''/'' \<notin> set b \<Longrightarrow> basename (a @ CHR ''/'' # b) = b"
  by (simp add: basename_def takeWhile_append)

lemma backup_path_eq:
  assumes "is_timestamp ts"
  shows "backup_path_of f ts = ''data/patches/'' @ basename f @ ''_'' @ ts @ ''.backup''"
proof -
  have "\<not> startswith (basename f @ ''_'' @ ts @ ''.backup'') ''/''"
  proof (cases "basename f")
    case Nil
    then show ?thesis by (simp add: startswith_def)
  next
    case (Cons c cs)
    with basename_no_slash[of f] have "c \<noteq> CHR ''/''" by auto
    with Cons show ?thesis by (simp add: startswith_def)
  qed
  then show ?thesis
    by (simp add: backup_path_of_def backup_dir_eq path_join_def)
qed

lemma basename_backup_path:
  assumes "is_timestamp ts"
  shows "basename (backup_path_of f ts) = basename f @ ''_'' @ ts @ ''.backup''"
proof -
  have n: "CHR ''/'' \<notin> set (basename f @ ''_'' @ ts @ ''.backup'')"
    using basename_no_slash[of f] timestamp_no_slash[OF assms] by auto
  have "backup_path_of f ts = ''data/patches'' @ CHR ''/'' # (basename f @ ''_'' @ ts @ ''.backup'')"
    by (simp add: backup_path_eq[OF assms])
  then show ?thesis using basename_append[OF n, of "''data/patches''"] by simp
qed

lemma backup_path_neq: "is_timestamp ts \<Longrightarrow> backup_path_of f ts \<noteq> f"
proof
  assume t: "is_timestamp ts" and e: "backup_path_of f ts = f"
  from basename_backup_path[OF t, of f] e
  have "basename f = basename f @ ''_'' @ ts @ ''.backup''" by simp
  then have "length (basename f) = length (basename f @ ''_'' @ ts @ ''.backup'')" by simp
  then show False by simp
qed

lemma basename_meta_path:
  assumes "is_timestamp ts"
  shows "basename (meta_path_of (backup_path_of f ts)) = basename f @ ''_'' @ ts @ ''.backup.meta''"
proof -
  have n: "CHR ''/'' \<notin> set (basename f @ ''_'' @ ts @ ''.backup.meta'')"
    using basename_no_slash[of f] timestamp_no_slash[OF assms] by auto
  have "meta_path_of (backup_path_of f ts) =
        ''data/patches'' @ CHR ''/'' # (basename f @ ''_'' @ ts @ ''.backup.meta'')"
    by (simp add: backup_path_eq[OF assms] meta_path_of_def)
  then show ?thesis using basename_append[OF n, of "''data/patches''"] by simp
qed

lemma meta_path_neq: "is_timestamp ts \<Longrightarrow> meta_path_of (backup_path_of f ts) \<noteq> f"
proof
  assume t: "is_timestamp ts" and e: "meta_path_of (backup_path_of f ts) = f"
  from basename_meta_path[OF t, of f] e
  have "basename f = basename f @ ''_'' @ ts @ ''.backup.meta''" by simp
  then have "length (basename f) = length (basename f @ ''_'' @ ts @ ''.backup.meta'')" by simp
  then show False by simp
qed

lemma meta_path_neq_backup: "meta_path_of b \<noteq> b"
proof
  assume "meta_path_of b = b"
  then have "length (meta_path_of b) = length b" by simp
  then show False by (simp add: meta_path_of_def)
qed

subsection \<open>Reading, backing up, applying, rolling back\<close>

lemma read_file_ok: "files w f = Some d \<Longrightarrow> \<not> fio (Read f) \<Longrightarrow> read_file fio f w = Inr (file_text d)"
  by (simp add: read_file_def)

lemma read_file_log [simp]: "read_file fio f (log_event e w) = read_file fio f w"
  by (simp add: read_file_def log_event_def)

lemma dry_apply_log [simp]: "dry_apply fio ap p f (log_event e w) = dry_apply fio ap p f w"
  by (simp add: dry_apply_def)

lemma files_log [simp]: "files (log_event e w) = files w"
  by (simp add: log_event_def)

lemma current_backup_log [simp]: "current_backup (log_event e w) = current_backup w"
  by (simp add: log_event_def)

lemma events_log [simp]: "events (log_event e w) = events w @ [e]"
  by (simp add: log_event_def)

lemma dry_apply_success:
  "dry_success (dry_apply fio ap p f w) \<Longrightarrow>
   \<exists>d c'. files w f = Some d \<and> \<not> fio (Read f) \<and> apply_patch_to_string (file_text d) p = Inr c' \<and> ap c' = None"
  by (auto simp: dry_apply_def read_file_def split: option.splits sum.splits if_splits)

lemma create_backup_ok:
  assumes "files w f = Some d" and "no_faults fio" and "is_timestamp ts"
  shows "create_backup fio ts f w =
     (Inr (backup_path_of f ts),
      w\<lparr>files := (files w)(backup_path_of f ts \<mapsto> d,
                           meta_path_of (backup_path_of f ts) \<mapsto> Json f ts (backup_path_of f ts)),
        events := events w @ [BackupCreated (backup_path_of f ts)]\<rparr>)"
  using assms backup_path_neq[of ts f]
  by (simp add: create_backup_def copy2_def write_file_def no_faults_def log_event_def Let_def)

lemma apply_patch_ok:
  assumes f: "files w f = Some d" and p: "apply_patch_to_string (file_text d) p = Inr c'"
    and nf: "no_faults fio" and ts: "is_timestamp ts"
  shows "apply_patch fio ts p f w =
     (Inr (backup_path_of f ts),
      w\<lparr>files := (files w)(backup_path_of f ts \<mapsto> d,
                           meta_path_of (backup_path_of f ts) \<mapsto> Json f ts (backup_path_of f ts),
                           f \<mapsto> Text c'),
        events := events w @ [BackupCreated (backup_path_of f ts), PatchApplied f],
        current_backup := Some (backup_path_of f ts)\<rparr>)"
  using f p nf backup_path_neq[OF ts, of f] meta_path_neq[OF ts, of f]
  by (simp add: apply_patch_def create_backup_ok[OF f nf ts] read_file_def write_file_def
      no_faults_def log_event_def)

lemma rollback_ok:
  assumes "current_backup w = Some b" and "files w (meta_path_of b) = Some (Json f ts' b')"
    and "files w b = Some d" and "b \<noteq> f" and "no_faults fio"
  shows "rollback fio w =
     (\<lparr>rb_success = True, rb_message = Some ''Rollback successful'', rb_error = None\<rparr>,
      w\<lparr>files := (files w)(f \<mapsto> d), events := events w @ [Restored f], current_backup := None\<rparr>)"
  using assms
  by (simp add: rollback_def get_backup_info_def restore_backup_def copy2_def no_faults_def
      log_event_def)

section \<open>Properties of a repair attempt\<close>

lemma repair_iteration_validation:
  assumes "make_plan en prev = Inr pl" and "target_file pl = Some tf" and "tf \<noteq> []"
    and "strategy pl = Some st" and "st \<noteq> ''none''"
    and "read_file (io en) tf w = Inr content"
    and "generate_patch en tf content pl = Inr p"
  shows "repair_iteration cfg en n prev w =
     (let w2 = log_event (Step ''patch'' n) (log_event (Step ''plan'' n) w);
          apply_result = dry_apply (io en) (ast_parse en) (patch_text p) tf w
      in if \<not> dry_success apply_result
         then (Inr (retry_result n ''validation'' (get_default (dry_error apply_result) [])
                      ''Patch failed validation''), w2)
         else (case apply_patch (io en) (now en) (patch_text p) tf w2 of
                 (Inl e, w3) \<Rightarrow> (Inl e, w3)
               | (Inr bpath, w3) \<Rightarrow> test_and_decide cfg en n pl p w3))"
proof -
  from assms(6) obtain d where "files w tf = Some d"
    by (auto simp: read_file_def split: option.splits)
  with assms show ?thesis
    by (simp add: repair_iteration_def Let_def)
qed

lemma repair_iteration_applied:
  assumes "make_plan en prev = Inr pl" and "target_file pl = Some tf" and "tf \<noteq> []"
    and "strategy pl = Some st" and "st \<noteq> ''none''"
    and f: "files w tf = Some d"
    and "generate_patch en tf (file_text d) pl = Inr p"
    and dry: "dry_success (dry_apply (io en) (ast_parse en) (patch_text p) tf w)"
    and nf: "no_faults (io en)" and ts: "is_timestamp (now en)"
  shows "\<exists>c'. apply_patch_to_string (file_text d) (patch_text p) = Inr c' \<and>
     repair_iteration cfg en n prev w =
       test_and_decide cfg en n pl p
         (w\<lparr>files := (files w)(backup_path_of tf (now en) \<mapsto> d,
                 meta_path_of (backup_path_of tf (now en)) \<mapsto>
                   Json tf (now en) (backup_path_of tf (now en)),
                 tf \<mapsto> Text c'),
            events := events w @ [Step ''plan'' n, Step ''patch'' n,
                                  BackupCreated (backup_path_of tf (now en)), PatchApplied tf],
            current_backup := Some (backup_path_of tf (now en))\<rparr>)"
proof -
  from dry_apply_success[OF dry] f obtain c' where
    c: "apply_patch_to_string (file_text d) (patch_text p) = Inr c'" by auto
  from nf f have r: "read_file (io en) tf w = Inr (file_text d)"
    by (simp add: read_file_def no_faults_def)
  let ?w2 = "log_event (Step ''patch'' n) (log_event (Step ''plan'' n) w)"
  have f2: "files ?w2 tf = Some d" using f by simp
  have a: "repair_iteration cfg en n prev w = test_and_decide cfg en n pl p
      (snd (apply_patch (io en) (now en) (patch_text p) tf ?w2))"
    using dry by (simp add: repair_iteration_validation[OF assms(1-5) r assms(7)] Let_def
        apply_patch_ok[OF f2 c nf ts])
  show ?thesis
    using c by (simp add: a apply_patch_ok[OF f2 c nf ts]) (simp add: log_event_def)
qed

lemma test_and_decide_rollback:
  assumes "current_backup w = Some b" and "files w (meta_path_of b) = Some (Json tf ts' b')"
    and "files w b = Some d" and "b \<noteq> tf" and "no_faults (io en)"
    and "run_tests en p pl (files w) = Inr tr"
    and "evaluate_patch (generate_json en p tr pl) p tr cfg = Inr ev"
    and "ev_verdict ev \<noteq> PASS"
  shows "test_and_decide cfg en n pl p w =
     (Inr \<lparr>status = (if ev_verdict ev = RETRY_V then RETRY else ESCALATE), attempt = n,
           phase = None, error = None, feedback_issue = None, result_patch = None,
           result_evaluation = Some ev, commit_res = None, auto_merged = None,
           requires_approval = None, failure_reason = None\<rparr>,
      w\<lparr>files := (files w)(tf \<mapsto> d),
        events := events w @ [Step ''test'' n, Step ''evaluation'' n, Restored tf],
        current_backup := None\<rparr>)"
proof -
  let ?w2 = "log_event (Step ''evaluation'' n) (log_event (Step ''test'' n) w)"
  have "rollback (io en) ?w2 =
     (\<lparr>rb_success = True, rb_message = Some ''Rollback successful'', rb_error = None\<rparr>,
      ?w2\<lparr>files := (files ?w2)(tf \<mapsto> d), events := events ?w2 @ [Restored tf],
           current_backup := None\<rparr>)"
    using assms by (intro rollback_ok) simp_all
  with assms show ?thesis
    by (simp add: test_and_decide_def Let_def log_event_def)
qed

lemma retry_attempt:
  assumes plan: "make_plan en prev = Inr pl" "target_file pl = Some tf" "tf \<noteq> []"
      "strategy pl = Some st" "st \<noteq> ''none''"
    and f: "files w tf = Some d"
    and gen: "generate_patch en tf (file_text d) pl = Inr p"
    and dry: "dry_success (dry_apply (io en) (ast_parse en) (patch_text p) tf w)"
    and nf: "no_faults (io en)" and ts: "is_timestamp (now en)"
    and tests: "\<And>fs. run_tests en p pl fs = Inr tr"
    and crit: "evaluate_patch (generate_json en p tr pl) p tr cfg = Inr ev"
    and v: "ev_verdict ev \<noteq> PASS"
  shows "repair_iteration cfg en n prev w =
     (Inr \<lparr>status = (if ev_verdict ev = RETRY_V then RETRY else ESCALATE), attempt = n,
           phase = None, error = None, feedback_issue = None, result_patch = None,
           result_evaluation = Some ev, commit_res = None, auto_merged = None,
           requires_approval = None, failure_reason = None\<rparr>,
      w\<lparr>files := (files w)(backup_path_of tf (now en) \<mapsto> d,
                 meta_path_of (backup_path_of tf (now en)) \<mapsto>
                   Json tf (now en) (backup_path_of tf (now en)),
                 tf \<mapsto> d),
        events := events w @ attempt_events tf (now en) n,
        current_backup := None\<rparr>)"
proof -
  let ?b = "backup_path_of tf (now en)"
  from repair_iteration_applied[OF plan f gen dry nf ts, of cfg n] obtain c' where
    r: "repair_iteration cfg en n prev w = test_and_decide cfg en n pl p
         (w\<lparr>files := (files w)(?b \<mapsto> d, meta_path_of ?b \<mapsto> Json tf (now en) ?b, tf \<mapsto> Text c'),
            events := events w @ [Step ''plan'' n, Step ''patch'' n, BackupCreated ?b, PatchApplied tf],
            current_backup := Some ?b\<rparr>)" (is "_ = test_and_decide cfg en n pl p ?w3")
    by blast
  have b: "?b \<noteq> tf" and m: "meta_path_of ?b \<noteq> tf" and mb: "meta_path_of ?b \<noteq> ?b"
    using backup_path_neq[OF ts] meta_path_neq[OF ts] meta_path_neq_backup by auto
  have "test_and_decide cfg en n pl p ?w3 =
     (Inr \<lparr>status = (if ev_verdict ev = RETRY_V then RETRY else ESCALATE), attempt = n,
           phase = None, error = None, feedback_issue = None, result_patch = None,
           result_evaluation = Some ev, commit_res = None, auto_merged = None,
           requires_approval = None, failure_reason = None\<rparr>,
      ?w3\<lparr>files := (files ?w3)(tf \<mapsto> d),
        events := events ?w3 @ [Step ''test'' n, Step ''evaluation'' n, Restored tf],
        current_backup := None\<rparr>)"
    using b m mb nf tests crit v
    by (intro test_and_decide_rollback[where b = ?b and ts' = "now en" and b' = ?b and tr = tr]) auto
  with r show ?thesis by (simp add: attempt_events_def)
qed

lemma dry_apply_ok:
  "files w tf = Some d \<Longrightarrow> no_faults fio \<Longrightarrow> apply_patch_to_string (file_text d) pt = Inr c' \<Longrightarrow>
   ap c' = None \<Longrightarrow> dry_success (dry_apply fio ap pt tf w)"
  by (simp add: dry_apply_def read_file_def no_faults_def)

lemma heal_loop_retries:
  assumes plan: "\<And>n prev. make_plan (envs n) prev = Inr pl" "target_file pl = Some tf" "tf \<noteq> []"
      "strategy pl = Some st" "st \<noteq> ''none''"
    and gen: "\<And>n. generate_patch (envs n) tf (file_text d) pl = Inr p"
    and patch: "apply_patch_to_string (file_text d) (patch_text p) = Inr c'"
    and syn: "\<And>n. ast_parse (envs n) c' = None"
    and nf: "\<And>n. no_faults (io (envs n))" and ts: "\<And>n. is_timestamp (now (envs n))"
    and tests: "\<And>n fs. run_tests (envs n) p pl fs = Inr tr"
    and crit: "\<And>n. evaluate_patch (generate_json (envs n) p tr pl) p tr cfg = Inr ev"
    and v: "ev_verdict ev = RETRY_V"
  shows "files w tf = Some d \<Longrightarrow>
     \<exists>w'. heal_loop cfg envs (\<lambda>r. None) k a prev w =
       (\<lparr>run_status = MAX_ATTEMPTS_REACHED, run_details = None,
         run_attempts = prev @ expected_attempts ev k a, run_error = None\<rparr>, w') \<and>
       files w' tf = Some d \<and> (k > 0 \<longrightarrow> current_backup w' = None) \<and>
       events w' = events w @ expected_events tf (\<lambda>n. now (envs n)) k a"
proof (induction k arbitrary: a prev w)
  case 0
  then show ?case by simp
next
  case (Suc k)
  let ?n = "a + 1"
  let ?en = "envs ?n"
  have dry: "dry_success (dry_apply (io ?en) (ast_parse ?en) (patch_text p) tf w)"
    using Suc.prems nf patch syn by (rule dry_apply_ok)
  have vp: "ev_verdict ev \<noteq> PASS" using v by simp
  note att = retry_attempt[of ?en prev pl tf st w d p tr cfg ev ?n,
      OF plan(1) plan(2-5) Suc.prems gen dry nf ts tests crit vp]
  let ?w1 = "w\<lparr>files := (files w)(backup_path_of tf (now ?en) \<mapsto> d,
                 meta_path_of (backup_path_of tf (now ?en)) \<mapsto>
                   Json tf (now ?en) (backup_path_of tf (now ?en)),
                 tf \<mapsto> d),
        events := events w @ attempt_events tf (now ?en) ?n,
        current_backup := None\<rparr>"
  have f1: "files ?w1 tf = Some d" by simp
  from Suc.IH[OF f1, of ?n "prev @ [retry_record ev ?n]"] obtain w' where
    ih: "heal_loop cfg envs (\<lambda>r. None) k ?n (prev @ [retry_record ev ?n]) ?w1 =
       (\<lparr>run_status = MAX_ATTEMPTS_REACHED, run_details = None,
         run_attempts = (prev @ [retry_record ev ?n]) @ expected_attempts ev k ?n,
         run_error = None\<rparr>, w')"
    and fw: "files w' tf = Some d"
    and cb: "k > 0 \<longrightarrow> current_backup w' = None"
    and ev: "events w' = events ?w1 @ expected_events tf (\<lambda>n. now (envs n)) k ?n"
    by blast
  have cb0: "k = 0 \<Longrightarrow> w' = ?w1" using ih by simp
  have "heal_loop cfg envs (\<lambda>r. None) (Suc k) a prev w =
        heal_loop cfg envs (\<lambda>r. None) k ?n (prev @ [retry_record ev ?n]) ?w1"
    using v by (simp add: att Let_def failure_reason_of_def get_default_def retry_record_def)
  with ih fw cb ev cb0 show ?case by (cases k) auto
qed

text \<open>
  Claim C2. An attempt that reaches the dry validation (a usable plan, a readable target
  file, a generated patch) and whose dry validation does not succeed, for a structural
  failure or for a syntax error of the patched content, ends as a retry with the phase
  \<^verbatim>\<open>validation\<close>; the disk is as before, no backup is recorded, and the only events are
  the two steps of the experiment log.
\<close>

theorem failed_validation_no_write:
  assumes "make_plan en prev = Inr pl" and "target_file pl = Some tf" and "tf \<noteq> []"
    and "strategy pl = Some st" and "st \<noteq> ''none''"
    and "read_file (io en) tf w = Inr content"
    and "generate_patch en tf content pl = Inr p"
    and "\<not> dry_success (dry_apply (io en) (ast_parse en) (patch_text p) tf w)"
  shows "\<exists>r w'. repair_iteration cfg en n prev w = (Inr r, w') \<and>
           status r = RETRY \<and> phase r = Some ''validation'' \<and>
           files w' = files w \<and> current_backup w' = current_backup w \<and>
           events w' = events w @ [Step ''plan'' n, Step ''patch'' n]"
  using assms(8)
  by (simp add: repair_iteration_validation[OF assms(1-7)] Let_def retry_result_def)

text \<open>
  Claim C5. With \<^verbatim>\<open>max_attempts = 3\<close> and collaborators that lead every attempt to an
  evaluation with the verdict RETRY (a usable plan for the file \<open>tf\<close>, a patch that
  passes the dry validation, tests that return, a working disk), the run ends with the
  status \<^verbatim>\<open>MAX_ATTEMPTS_REACHED\<close> and three attempt records, all retries; each attempt
  ends with the restore of its backup; and the content of the target file at the end is
  its content at the start.
\<close>

theorem three_retries_exhaust:
  assumes cfg: "max_attempts cfg = Some 3"
    and plan: "\<And>n prev. make_plan (envs n) prev = Inr pl" "target_file pl = Some tf" "tf \<noteq> []"
      "strategy pl = Some st" "st \<noteq> ''none''"
    and f: "files w tf = Some d"
    and gen: "\<And>n. generate_patch (envs n) tf (file_text d) pl = Inr p"
    and patch: "apply_patch_to_string (file_text d) (patch_text p) = Inr c'"
    and syn: "\<And>n. ast_parse (envs n) c' = None"
    and nf: "\<And>n. no_faults (io (envs n))" and ts: "\<And>n. is_timestamp (now (envs n))"
    and tests: "\<And>n fs. run_tests (envs n) p pl fs = Inr tr"
    and crit: "\<And>n. evaluate_patch (generate_json (envs n) p tr pl) p tr cfg = Inr ev"
    and v: "ev_verdict ev = RETRY_V"
  shows "\<exists>res w'. heal cfg BugsFound envs (\<lambda>r. None) w = (res, w') \<and>
     run_status res = MAX_ATTEMPTS_REACHED \<and>
     length (run_attempts res) = 3 \<and>
     list_all (\<lambda>r. status r = RETRY) (run_attempts res) \<and>
     events w' = events w @ attempt_events tf (now (envs 1)) 1
                          @ attempt_events tf (now (envs 2)) 2
                          @ attempt_events tf (now (envs 3)) 3 \<and>
     files w' tf = files w tf \<and> current_backup w' = None"
proof -
  from heal_loop_retries[of envs pl tf st d p c' tr cfg ev w 3 0 "[]",
      OF plan gen patch syn nf ts tests crit v f]
  obtain w' where h: "heal_loop cfg envs (\<lambda>r. None) 3 0 [] w =
       (\<lparr>run_status = MAX_ATTEMPTS_REACHED, run_details = None,
         run_attempts = [] @ expected_attempts ev 3 0, run_error = None\<rparr>, w')"
    and fw: "files w' tf = Some d" and cb: "current_backup w' = None"
    and ev: "events w' = events w @ expected_events tf (\<lambda>n. now (envs n)) 3 0"
    by auto
  have three: "(3::nat) = Suc (Suc (Suc 0))" by simp
  have "heal cfg BugsFound envs (\<lambda>r. None) w = heal_loop cfg envs (\<lambda>r. None) 3 0 [] w"
    using cfg by (simp add: heal_def get_default_def)
  with h fw cb ev f show ?thesis
    by (simp add: three retry_record_def)
qed


subsection \<open>The claims on the stub collaborators\<close>

lemma stub_timestamp: "is_timestamp ''20240101_120000''"
  by code_simp

lemma sample_patch_applies:
  "apply_patch_to_string ''x = 1'' (patch_text sample_patch) = Inr ''x = 2''"
  by code_simp

text \<open>An attempt whose patched content the syntax check rejects.\<close>

theorem failed_validation_no_write_witness:
  "\<not> dry_success (dry_apply (io rejecting_env) (ast_parse rejecting_env)
        (patch_text sample_patch) ''app.py'' sample_world) \<and>
   (\<exists>r w'. repair_iteration default_config rejecting_env 1 [] sample_world = (Inr r, w') \<and>
           status r = RETRY \<and> phase r = Some ''validation'' \<and>
           files w' = files sample_world \<and> current_backup w' = current_backup sample_world \<and>
           events w' = events sample_world @ [Step ''plan'' 1, Step ''patch'' 1])"
proof -
  have h1: "make_plan rejecting_env [] = Inr sample_plan"
    by (simp add: rejecting_env_def stub_env_def)
  have h2: "target_file sample_plan = Some ''app.py''" by (simp add: sample_plan_def)
  have h3: "''app.py'' \<noteq> []" by simp
  have h4: "strategy sample_plan = Some ''one_line_fix''" by (simp add: sample_plan_def)
  have h5: "''one_line_fix'' \<noteq> ''none''" by simp
  have h6: "read_file (io rejecting_env) ''app.py'' sample_world = Inr ''x = 1''"
    by (simp add: read_file_def rejecting_env_def stub_env_def sample_world_def)
  have h7: "generate_patch rejecting_env ''app.py'' ''x = 1'' sample_plan = Inr sample_patch"
    by (simp add: rejecting_env_def stub_env_def)
  have h8: "\<not> dry_success (dry_apply (io rejecting_env) (ast_parse rejecting_env)
        (patch_text sample_patch) ''app.py'' sample_world)"
    by code_simp
  from h8 failed_validation_no_write[OF h1 h2 h3 h4 h5 h6 h7 h8, of default_config 1]
  show ?thesis by blast
qed

text \<open>
  With no number of changed lines in the metadata and a negative limit, the size check
  raises \<^verbatim>\<open>KeyError\<close> when it formats its rationale; the attempt rolls back and ends
  as a retry with the phase \<^verbatim>\<open>unknown\<close>.
\<close>

lemma missing_size_key_is_retry:
  "fst (repair_iteration negative_limit unsized_patch_env 1 [] sample_world) =
     Inr (retry_result 1 ''unknown'' (quoted ''lines_changed'') ''Iteration failed: KeyError'') \<and>
   events (snd (repair_iteration negative_limit unsized_patch_env 1 [] sample_world)) =
     [Step ''plan'' 1, Step ''patch'' 1,
      BackupCreated ''data/patches/app.py_20240101_120000.backup'',
      PatchApplied ''app.py'', Step ''test'' 1, Restored ''app.py'']"
  by code_simp



theorem three_retries_exhaust_witness:
  "run_status (fst (heal three_attempts BugsFound (\<lambda>n. stub_env) (\<lambda>r. None) sample_world)) =
     MAX_ATTEMPTS_REACHED \<and>
   length (run_attempts (fst (heal three_attempts BugsFound (\<lambda>n. stub_env) (\<lambda>r. None) sample_world))) = 3 \<and>
   list_all (\<lambda>r. status r = RETRY)
     (run_attempts (fst (heal three_attempts BugsFound (\<lambda>n. stub_env) (\<lambda>r. None) sample_world))) \<and>
   events (snd (heal three_attempts BugsFound (\<lambda>n. stub_env) (\<lambda>r. None) sample_world)) =
     attempt_events ''app.py'' ''20240101_120000'' 1 @
     attempt_events ''app.py'' ''20240101_120000'' 2 @
     attempt_events ''app.py'' ''20240101_120000'' 3 \<and>
   files (snd (heal three_attempts BugsFound (\<lambda>n. stub_env) (\<lambda>r. None) sample_world)) ''app.py'' =
     Some (Text ''x = 1'')"
proof -
  let ?ev = "\<lparr>ev_verdict = RETRY_V, ev_confidence = 9 / 10,
                ev_issues_found = [''Test failures''],
                ev_suggestions = [''Review test failures and adjust patch''],
                ev_security_concerns = [], ev_test_coverage = 3 / 4,
                should_auto_merge = False\<rparr>"
  have h0: "max_attempts three_attempts = Some 3" by (simp add: three_attempts_def)
  have h1: "\<And>n prev. make_plan stub_env prev = Inr sample_plan"
    by (simp add: stub_env_def)
  have h2: "target_file sample_plan = Some ''app.py''" by (simp add: sample_plan_def)
  have h3: "''app.py'' \<noteq> []" by simp
  have h4: "strategy sample_plan = Some ''one_line_fix''" by (simp add: sample_plan_def)
  have h5: "''one_line_fix'' \<noteq> ''none''" by simp
  have h6: "files sample_world ''app.py'' = Some (Text ''x = 1'')"
    by (simp add: sample_world_def)
  have h7: "\<And>n::int. generate_patch stub_env ''app.py'' (file_text (Text ''x = 1'')) sample_plan = Inr sample_patch"
    by (simp add: stub_env_def)
  have h8: "apply_patch_to_string (file_text (Text ''x = 1'')) (patch_text sample_patch) = Inr ''x = 2''"
    by (simp add: sample_patch_applies)
  have h9: "\<And>n::int. ast_parse stub_env ''x = 2'' = None" by (simp add: stub_env_def)
  have h10: "\<And>n::int. no_faults (io stub_env)" by (simp add: no_faults_def stub_env_def)
  have h11: "\<And>n::int. is_timestamp (now stub_env)" by (simp add: stub_env_def stub_timestamp)
  have h12: "\<And>(n::int) fs. run_tests stub_env sample_patch sample_plan fs = Inr failing_tests"
    by (simp add: stub_env_def)
  have h13: "\<And>n::int. evaluate_patch (generate_json stub_env sample_patch failing_tests sample_plan)
               sample_patch failing_tests three_attempts = Inr ?ev"
    by (simp add: evaluate_patch_def quick_checks_def failing_tests_def get_default_def
        coverage_ratio_def)
  have h14: "ev_verdict ?ev = RETRY_V" by simp
  from three_retries_exhaust[of three_attempts "\<lambda>n. stub_env" sample_plan "''app.py''"
      "''one_line_fix''" sample_world "Text ''x = 1''" sample_patch "''x = 2''" failing_tests ?ev,
      OF h0 h1 h2 h3 h4 h5 h6 h7 h8 h9 h10 h11 h12 h13 h14]
  obtain res w' where "heal three_attempts BugsFound (\<lambda>n. stub_env) (\<lambda>r. None) sample_world = (res, w')"
    and "run_status res = MAX_ATTEMPTS_REACHED" and "length (run_attempts res) = 3"
    and "list_all (\<lambda>r. status r = RETRY) (run_attempts res)"
    and "events w' = events sample_world @ attempt_events ''app.py'' (now stub_env) 1
                          @ attempt_events ''app.py'' (now stub_env) 2
                          @ attempt_events ''app.py'' (now stub_env) 3"
    and "files w' ''app.py'' = files sample_world ''app.py''"
    by blast
  then show ?thesis by (simp add: sample_world_def stub_env_def)
qed

section \<open>Backups and rollbacks that go wrong\<close>

text \<open>
  Claim C3, as the code has it. Neither \<^verbatim>\<open>_create_backup\<close> nor \<^verbatim>\<open>apply\<close> looks at the
  backup that is recorded: while a backup of the file \<open>tf\<close> is live, a second call for
  the same file does not fail. When the file exists, the patch applies and the disk
  works, it makes a backup of the present content and records it in the place of the
  earlier one.
\<close>

theorem second_backup_not_refused:
  assumes live: "current_backup w = Some b0" "files w (meta_path_of b0) = Some (Json tf ts0 b0)"
    and f: "files w tf = Some d"
    and p: "apply_patch_to_string (file_text d) pt = Inr c'"
    and nf: "no_faults fio" and ts: "is_timestamp ts"
  shows "fst (create_backup fio ts tf w) = Inr (backup_path_of tf ts) \<and>
     (\<exists>w'. apply_patch fio ts pt tf w = (Inr (backup_path_of tf ts), w') \<and>
        current_backup w' = Some (backup_path_of tf ts) \<and>
        files w' (backup_path_of tf ts) = Some d \<and>
        files w' tf = Some (Text c'))"
  using backup_path_neq[OF ts, of tf] meta_path_neq[OF ts, of tf]
    meta_path_neq_backup[of "backup_path_of tf ts"]
  by (simp add: create_backup_ok[OF f nf ts] apply_patch_ok[OF f p nf ts])

theorem second_backup_not_refused_witness:
  "current_backup
     (snd (apply_patch (\<lambda>op. False) ''20240101_120000'' (patch_text sample_patch) ''app.py''
             sample_world)) = Some ''data/patches/app.py_20240101_120000.backup'' \<and>
   fst (create_backup (\<lambda>op. False) ''20240101_120005'' ''app.py''
     (snd (apply_patch (\<lambda>op. False) ''20240101_120000'' (patch_text sample_patch) ''app.py''
             sample_world))) = Inr (backup_path_of ''app.py'' ''20240101_120005'') \<and>
   (\<exists>w'. apply_patch (\<lambda>op. False) ''20240101_120005'' (patch_text sample_patch) ''app.py''
           (snd (apply_patch (\<lambda>op. False) ''20240101_120000'' (patch_text sample_patch)
                   ''app.py'' sample_world))
         = (Inr (backup_path_of ''app.py'' ''20240101_120005''), w') \<and>
        current_backup w' = Some (backup_path_of ''app.py'' ''20240101_120005'') \<and>
        files w' (backup_path_of ''app.py'' ''20240101_120005'') = Some (Text ''x = 2'') \<and>
        files w' ''app.py'' = Some (Text ''x = 2''))"
proof -
  let ?w = "snd (apply_patch (\<lambda>op. False) ''20240101_120000'' (patch_text sample_patch) ''app.py''
             sample_world)"
  have h1: "current_backup ?w = Some ''data/patches/app.py_20240101_120000.backup''"
    by code_simp
  have h2: "files ?w (meta_path_of ''data/patches/app.py_20240101_120000.backup'') =
      Some (Json ''app.py'' ''20240101_120000'' ''data/patches/app.py_20240101_120000.backup'')"
    by code_simp
  have h3: "files ?w ''app.py'' = Some (Text ''x = 2'')" by code_simp
  have h4: "apply_patch_to_string (file_text (Text ''x = 2'')) (patch_text sample_patch) = Inr ''x = 2''"
    by code_simp
  have h5: "no_faults (\<lambda>op. False)" by (simp add: no_faults_def)
  have h6: "is_timestamp ''20240101_120005''" by code_simp
  from h1 second_backup_not_refused[OF h1 h2 h3 h4 h5 h6] show ?thesis by simp
qed

text \<open>
  The claim as the specification states it fails: two calls of \<^verbatim>\<open>apply\<close> for the same
  file, five seconds apart and with no rollback or commit between them, both succeed and
  leave two backups on the disk, the second one of the patched content.
\<close>

theorem backup_conflict_counterexample:
  "fst (apply_patch (\<lambda>op. False) ''20240101_120000'' (patch_text sample_patch) ''app.py'' sample_world)
     = Inr ''data/patches/app.py_20240101_120000.backup'' \<and>
   fst (apply_patch (\<lambda>op. False) ''20240101_120005'' (patch_text sample_patch) ''app.py''
          (snd (apply_patch (\<lambda>op. False) ''20240101_120000'' (patch_text sample_patch) ''app.py''
                  sample_world)))
     = Inr ''data/patches/app.py_20240101_120005.backup'' \<and>
   current_backup
     (snd (apply_patch (\<lambda>op. False) ''20240101_120005'' (patch_text sample_patch) ''app.py''
          (snd (apply_patch (\<lambda>op. False) ''20240101_120000'' (patch_text sample_patch) ''app.py''
                  sample_world))))
     = Some ''data/patches/app.py_20240101_120005.backup'' \<and>
   files
     (snd (apply_patch (\<lambda>op. False) ''20240101_120005'' (patch_text sample_patch) ''app.py''
          (snd (apply_patch (\<lambda>op. False) ''20240101_120000'' (patch_text sample_patch) ''app.py''
                  sample_world))))
     ''data/patches/app.py_20240101_120000.backup'' = Some (Text ''x = 1'') \<and>
   files
     (snd (apply_patch (\<lambda>op. False) ''20240101_120005'' (patch_text sample_patch) ''app.py''
          (snd (apply_patch (\<lambda>op. False) ''20240101_120000'' (patch_text sample_patch) ''app.py''
                  sample_world))))
     ''data/patches/app.py_20240101_120005.backup'' = Some (Text ''x = 2'')"
  by code_simp

text \<open>
  The result of the part of an attempt that follows \<^verbatim>\<open>apply\<close> does not depend on the
  faults of the disk: they only reach the rollback, whose result is dropped.
\<close>

lemma test_and_decide_fst_io:
  "fst (test_and_decide cfg (en\<lparr>io := f\<rparr>) n pl p w) = fst (test_and_decide cfg en n pl p w)"
  by (simp add: test_and_decide_def on_exception_def Let_def
      split: sum.splits option.splits prod.splits)

lemma apply_patch_agree:
  assumes agree: "\<And>op. op \<noteq> Copy (backup_path_of tf ts) tf \<Longrightarrow> f op = g op"
    and ok: "apply_patch g ts pt tf w = (Inr b, w3)"
  shows "apply_patch f ts pt tf w = (Inr b, w3)"
proof -
  have r: "f (Read tf) = g (Read tf)" and wr: "\<And>x. f (Write x) = g (Write x)"
    by (simp_all add: agree)
  have c: "tf \<noteq> backup_path_of tf ts \<Longrightarrow> f (Copy tf (backup_path_of tf ts)) = g (Copy tf (backup_path_of tf ts))"
    by (rule agree) auto
  have cb: "create_backup f ts tf w = create_backup g ts tf w"
    using c by (auto simp: create_backup_def copy2_def write_file_def wr Let_def split: option.splits)
  have rf: "\<And>w'. read_file f tf w' = read_file g tf w'"
    by (simp add: read_file_def r split: option.splits)
  have wf: "\<And>x d w'. write_file f x d w' = write_file g x d w'"
    by (simp add: write_file_def wr)
  from ok show ?thesis
    unfolding apply_patch_def cb rf wf
    by (auto split: prod.splits sum.splits)
qed

text \<open>
  Claim C4, as the code has it. A failure of the restore during the rollback of an
  attempt is reported by \<^verbatim>\<open>rollback\<close> in its own result, which
  \<^verbatim>\<open>_repair_iteration\<close> drops: whenever an attempt returns a result, it returns the same
  result on a disk that differs only in that copying the backup back onto the target
  fails (or succeeds). The recorded outcome of the attempt does not show the failure.
\<close>

theorem restore_failure_not_recorded:
  assumes agree: "\<And>op. op \<noteq> Copy (backup_path_of tf (now en)) tf \<Longrightarrow> f op = io en op"
    and plan: "make_plan en prev = Inr pl" "target_file pl = Some tf"
    and res: "repair_iteration cfg en n prev w = (Inr r, w1)"
  shows "fst (repair_iteration cfg (en\<lparr>io := f\<rparr>) n prev w) = Inr r"
proof -
  have r: "f (Read tf) = io en (Read tf)" by (simp add: agree)
  have rf: "\<And>w'. read_file f tf w' = read_file (io en) tf w'"
    by (simp add: read_file_def r split: option.splits)
  have da: "\<And>ap pt w'. dry_apply f ap pt tf w' = dry_apply (io en) ap pt tf w'"
    by (simp add: dry_apply_def rf)
  have ap: "\<And>pt w' b w3. apply_patch (io en) (now en) pt tf w' = (Inr b, w3) \<Longrightarrow>
              apply_patch f (now en) pt tf w' = (Inr b, w3)"
    using agree by (rule apply_patch_agree)
  from res plan show ?thesis
    by (auto simp: repair_iteration_def Let_def rf da test_and_decide_fst_io
        split: sum.splits if_splits prod.splits dest!: ap)
qed

theorem restore_failure_not_recorded_witness:
  "repair_iteration three_attempts stub_env 1 [] sample_world =
     (Inr (retry_record \<lparr>ev_verdict = RETRY_V, ev_confidence = 9 / 10,
                ev_issues_found = [''Test failures''],
                ev_suggestions = [''Review test failures and adjust patch''],
                ev_security_concerns = [], ev_test_coverage = 3 / 4,
                should_auto_merge = False\<rparr> 1\<lparr>failure_reason := None\<rparr>),
      snd (repair_iteration three_attempts stub_env 1 [] sample_world)) \<and>
   fst (repair_iteration three_attempts (stub_env\<lparr>io := io restore_fault_env\<rparr>) 1 [] sample_world) =
     Inr (retry_record \<lparr>ev_verdict = RETRY_V, ev_confidence = 9 / 10,
                ev_issues_found = [''Test failures''],
                ev_suggestions = [''Review test failures and adjust patch''],
                ev_security_concerns = [], ev_test_coverage = 3 / 4,
                should_auto_merge = False\<rparr> 1\<lparr>failure_reason := None\<rparr>)"
proof -
  let ?r = "retry_record \<lparr>ev_verdict = RETRY_V, ev_confidence = 9 / 10,
                ev_issues_found = [''Test failures''],
                ev_suggestions = [''Review test failures and adjust patch''],
                ev_security_concerns = [], ev_test_coverage = 3 / 4,
                should_auto_merge = False\<rparr> 1\<lparr>failure_reason := None\<rparr>"
  have a: "\<And>op. op \<noteq> Copy (backup_path_of ''app.py'' (now stub_env)) ''app.py'' \<Longrightarrow>
             io restore_fault_env op = io stub_env op"
    by (simp add: restore_fault_env_def stub_env_def)
  have p1: "make_plan stub_env [] = Inr sample_plan" by (simp add: stub_env_def)
  have p2: "target_file sample_plan = Some ''app.py''" by (simp add: sample_plan_def)
  have "fst (repair_iteration three_attempts stub_env 1 [] sample_world) = Inr ?r"
    by code_simp
  then have res: "repair_iteration three_attempts stub_env 1 [] sample_world =
     (Inr ?r, snd (repair_iteration three_attempts stub_env 1 [] sample_world))"
    by (simp add: prod_eq_iff)
  from res restore_failure_not_recorded[OF a p1 p2 res] show ?thesis by simp
qed

text \<open>
  The claim as the specification states it fails: on a disk where copying the backup
  back fails, the attempt returns the retry that it returns on a working disk, with no
  error and no phase; the file keeps the patched content, no restore is logged, and a
  rollback in that state reports its failure only to its caller.
\<close>

theorem restore_failure_counterexample:
  "fst (repair_iteration three_attempts restore_fault_env 1 [] sample_world) =
     Inr \<lparr>status = RETRY, attempt = 1, phase = None, error = None, feedback_issue = None,
          result_patch = None,
          result_evaluation =
            Some \<lparr>ev_verdict = RETRY_V, ev_confidence = 9 / 10,
                   ev_issues_found = [''Test failures''],
                   ev_suggestions = [''Review test failures and adjust patch''],
                   ev_security_concerns = [], ev_test_coverage = 3 / 4,
                   should_auto_merge = False\<rparr>,
          commit_res = None, auto_merged = None, requires_approval = None,
          failure_reason = None\<rparr> \<and>
   fst (repair_iteration three_attempts restore_fault_env 1 [] sample_world) =
     fst (repair_iteration three_attempts stub_env 1 [] sample_world) \<and>
   files (snd (repair_iteration three_attempts restore_fault_env 1 [] sample_world)) ''app.py'' =
     Some (Text ''x = 2'') \<and>
   events (snd (repair_iteration three_attempts restore_fault_env 1 [] sample_world)) =
     [Step ''plan'' 1, Step ''patch'' 1,
      BackupCreated ''data/patches/app.py_20240101_120000.backup'',
      PatchApplied ''app.py'', Step ''test'' 1, Step ''evaluation'' 1] \<and>
   rb_success (fst (rollback (io restore_fault_env)
      (snd (repair_iteration three_attempts restore_fault_env 1 [] sample_world)))) = False"
  by code_simp

section \<open>Properties of the approval scheduler\<close>

text \<open>
  Run alone, the thread of a manual decision and the timer thread compute what
  \<^verbatim>\<open>approve_and_push\<close> and \<^verbatim>\<open>_auto_push_after_timeout\<close> compute.
\<close>

lemma replicate7: "replicate 7 (0::nat) = [0,0,0,0,0,0,0]"
  by (simp add: eval_nat_numeral)

lemma manual_thread_is_approve_and_push:
  "run_schedule run_id (replicate 7 0) ([\<lparr>pc = L215, approved = a, auto = b\<rparr>], h) =
     ([\<lparr>pc = Return (fst (approve_and_push run_id a b h)), approved = a, auto = b\<rparr>],
      snd (approve_and_push run_id a b h))"
  by (simp add: replicate7 approve_and_push_def goto_def act_def Let_def)

lemma timer_thread_is_auto_push:
  "run_id \<notin> timer_cancelled h \<Longrightarrow>
   run_schedule run_id (replicate 9 0) ([timer_thread], h) =
     ([\<lparr>pc = Return (fst (auto_push_after_timeout run_id h)), approved = True, auto = True\<rparr>],
      snd (auto_push_after_timeout run_id h))"
  by (simp add: eval_nat_numeral timer_thread_def auto_push_after_timeout_def
      approve_and_push_def goto_def act_def Let_def)

text \<open>
  Claim C1 fails on the code. The timer thread passes the tests of lines 201 and 215 and
  reads the entry; the manual rejection then runs from line 215 to its end (it cancels the
  timer, which has fired already, rolls back, and deletes the entry); the timer thread goes
  on, commits, pushes and sends the success notification, and only its delete of the
  entry fails, inside the \<^verbatim>\<open>try\<close>. Both decisions have acted on the same run, and
  neither call has reported that the run was resolved already.
\<close>

theorem approval_race:
  "map pc (fst (run_schedule ''run-1'' [0, 0, 0, 0, 1, 1, 1, 1, 1, 0, 0, 0, 0, 0]
                  ([timer_thread, manual_thread False], armed ''run-1'' ''app.py''))) =
     [Return (Caught (KeyError ''run-1'')), Return Rejected] \<and>
   actions (snd (run_schedule ''run-1'' [0, 0, 0, 0, 1, 1, 1, 1, 1, 0, 0, 0, 0, 0]
                  ([timer_thread, manual_thread False], armed ''run-1'' ''app.py''))) =
     [RollbackCall, CommitCall True, PushCall, SuccessNotification True]"
  by code_simp

text \<open>
  Without a repository the defect shows without any interleaving: a commit that succeeds
  returns \<^verbatim>\<open>None\<close> and leaves the run pending, so a second approval commits again.
\<close>

lemma commit_without_repository_stays_pending:
  "fst (approve_and_push ''run-1'' True False ((armed ''run-1'' ''app.py'')\<lparr>has_repo := False\<rparr>)) =
     ReturnedNone \<and>
   actions (snd (approve_and_push ''run-1'' True False
     (snd (approve_and_push ''run-1'' True False
        ((armed ''run-1'' ''app.py'')\<lparr>has_repo := False\<rparr>))))) =
     [CommitCall False, CommitCall False]"
  by (simp add: approve_and_push_def armed_def Let_def)

end
